theory Spec2Isabelle
  imports Complex_Main "HOL-Library.Char_ord" "HOL-Library.List_Lexorder"
begin

section \<open>Numeric foundations\<close>

text \<open>
  The Python sources compute with IEEE double floats (Python \<open>float\<close>, numpy and pandas
  \<open>float64\<close>).  Values are reals.  The special values that numpy creates on division by
  zero are modelled explicitly, because several operations of the program produce them
  and pass them on; the rounding of an addition is modelled where the program sums the
  sales column (\<open>fsum\<close> below); the other operations are taken as exact (no overflow, no
  signed zero).
\<close>

datatype npfloat = Fin real | PInf | NInf | NaN

fun is_finite :: "npfloat \<Rightarrow> bool" where
  "is_finite (Fin x) = True"
| "is_finite PInf = False"
| "is_finite NInf = False"
| "is_finite NaN = False"

fun np_neg :: "npfloat \<Rightarrow> npfloat" where
  "np_neg (Fin x) = Fin (- x)"
| "np_neg PInf = NInf"
| "np_neg NInf = PInf"
| "np_neg NaN = NaN"

fun np_add :: "npfloat \<Rightarrow> npfloat \<Rightarrow> npfloat" where
  "np_add (Fin a) (Fin b) = Fin (a + b)"
| "np_add NaN y = NaN"
| "np_add x NaN = NaN"
| "np_add PInf NInf = NaN"
| "np_add NInf PInf = NaN"
| "np_add PInf y = PInf"
| "np_add NInf y = NInf"
| "np_add x PInf = PInf"
| "np_add x NInf = NInf"

definition np_sub :: "npfloat \<Rightarrow> npfloat \<Rightarrow> npfloat" where
  "np_sub x y = np_add x (np_neg y)"

fun np_mul :: "npfloat \<Rightarrow> npfloat \<Rightarrow> npfloat" where
  "np_mul (Fin a) (Fin b) = Fin (a * b)"
| "np_mul NaN y = NaN"
| "np_mul x NaN = NaN"
| "np_mul PInf (Fin b) = (if b = 0 then NaN else if 0 < b then PInf else NInf)"
| "np_mul NInf (Fin b) = (if b = 0 then NaN else if 0 < b then NInf else PInf)"
| "np_mul (Fin a) PInf = (if a = 0 then NaN else if 0 < a then PInf else NInf)"
| "np_mul (Fin a) NInf = (if a = 0 then NaN else if 0 < a then NInf else PInf)"
| "np_mul PInf PInf = PInf"
| "np_mul NInf NInf = PInf"
| "np_mul PInf NInf = NInf"
| "np_mul NInf PInf = NInf"

text \<open>numpy division: a finite non-zero value over zero is an infinity, zero over zero is NaN.\<close>

fun np_div :: "npfloat \<Rightarrow> npfloat \<Rightarrow> npfloat" where
  "np_div (Fin a) (Fin b) =
     (if b = 0 then (if a = 0 then NaN else if 0 < a then PInf else NInf) else Fin (a / b))"
| "np_div NaN y = NaN"
| "np_div x NaN = NaN"
| "np_div (Fin a) PInf = Fin 0"
| "np_div (Fin a) NInf = Fin 0"
| "np_div PInf (Fin b) = (if 0 \<le> b then PInf else NInf)"
| "np_div NInf (Fin b) = (if 0 \<le> b then NInf else PInf)"
| "np_div PInf PInf = NaN"
| "np_div PInf NInf = NaN"
| "np_div NInf PInf = NaN"
| "np_div NInf NInf = NaN"

fun np_abs :: "npfloat \<Rightarrow> npfloat" where
  "np_abs (Fin x) = Fin \<bar>x\<bar>"
| "np_abs PInf = PInf"
| "np_abs NInf = PInf"
| "np_abs NaN = NaN"

fun np_sqrt :: "npfloat \<Rightarrow> npfloat" where
  "np_sqrt (Fin x) = (if 0 \<le> x then Fin (sqrt x) else NaN)"
| "np_sqrt PInf = PInf"
| "np_sqrt NInf = NaN"
| "np_sqrt NaN = NaN"

text \<open>Comparisons: every comparison with NaN is false.\<close>

fun np_gt :: "npfloat \<Rightarrow> npfloat \<Rightarrow> bool" where
  "np_gt (Fin a) (Fin b) = (b < a)"
| "np_gt NaN y = False"
| "np_gt x NaN = False"
| "np_gt PInf PInf = False"
| "np_gt PInf y = True"
| "np_gt x PInf = False"
| "np_gt NInf y = False"
| "np_gt x NInf = True"

definition np_lt :: "npfloat \<Rightarrow> npfloat \<Rightarrow> bool" where
  "np_lt x y = np_gt y x"

definition np_sum :: "npfloat list \<Rightarrow> npfloat" where
  "np_sum xs = foldl np_add (Fin 0) xs"

text \<open>\<open>np.mean\<close>: the sum over the count; the mean of an empty array is NaN (0/0).\<close>

definition np_mean :: "npfloat list \<Rightarrow> npfloat" where
  "np_mean xs = np_div (np_sum xs) (Fin (real (length xs)))"

text \<open>pandas \<open>Series.mean()\<close> skips NaN entries (\<open>skipna=True\<close>); NaN when nothing is left.\<close>

definition pd_mean :: "npfloat list \<Rightarrow> npfloat" where
  "pd_mean xs = np_mean (filter (\<lambda>x. x \<noteq> NaN) xs)"

text \<open>
  Python's \<open>round(x, 2)\<close> and pandas' \<open>.round(2)\<close>: round to two decimals, ties to the
  even neighbour.
\<close>

definition round_half_even :: "real \<Rightarrow> int" where
  "round_half_even x =
     (let f = \<lfloor>x\<rfloor>; d = x - of_int f
      in if d < 1/2 then f else if 1/2 < d then f + 1 else if even f then f else f + 1)"

definition round2 :: "real \<Rightarrow> real" where
  "round2 x = of_int (round_half_even (x * 100)) / 100"

text \<open>Python's \<open>int(x)\<close> on a float truncates towards zero.\<close>

definition py_int :: "real \<Rightarrow> int" where
  "py_int x = (if 0 \<le> x then \<lfloor>x\<rfloor> else \<lceil>x\<rceil>)"

text \<open>
  The sums of the sales column are where the rounding of float64 addition shows, so
  they are accumulated as the machine does: \<open>fl\<close> rounds a real to the nearest double
  (53 significant bits, ties to the even neighbour; the exponent range is taken as
  unbounded, so neither overflow nor subnormal numbers occur), \<open>fadd\<close> is the rounded
  addition, and \<open>fsum\<close>, for \<open>Series.sum()\<close> and the sum of a \<open>groupby\<close>, adds the values in
  row order, one rounded addition per value (the order in which pandas' own loops add
  a long column is the library's).
\<close>

definition fl :: "real \<Rightarrow> real" where
  "fl x = (if x = 0 then 0
           else (let e = \<lfloor>log 2 \<bar>x\<bar>\<rfloor>; ulp = 2 powi (e - 52)
                 in of_int (round_half_even (x / ulp)) * ulp))"

definition fadd :: "real \<Rightarrow> real \<Rightarrow> real" where
  "fadd a b = fl (a + b)"

definition fsum :: "real list \<Rightarrow> real" where
  "fsum xs = foldl fadd 0 xs"


section \<open>Python values, errors and slices\<close>

datatype error =
    ValueError string
  | AttributeError string
  | TypeError string
  | IndexError string

text \<open>Truthiness of an optional string argument: \<open>None\<close> and \<open>''\<close> are both false.\<close>

fun truthy :: "string option \<Rightarrow> bool" where
  "truthy None = False"
| "truthy (Some s) = (s \<noteq> [])"

text \<open>\<open>xs[i:]\<close> and \<open>xs[:j]\<close> (also \<open>.iloc\<close>): a negative index counts from the end.\<close>

definition py_slice_from :: "'a list \<Rightarrow> int \<Rightarrow> 'a list" where
  "py_slice_from xs i =
     (if i < 0 then drop (nat (max 0 (int (length xs) + i))) xs else drop (nat i) xs)"

definition py_slice_to :: "'a list \<Rightarrow> int \<Rightarrow> 'a list" where
  "py_slice_to xs j =
     (if j < 0 then take (nat (max 0 (int (length xs) + j))) xs else take (nat j) xs)"

text \<open>
  An elementwise numpy operation on two one-dimensional arrays: equal lengths, or one
  side of length one (broadcast); anything else raises.
\<close>

definition np_binop ::
  "(npfloat \<Rightarrow> npfloat \<Rightarrow> npfloat) \<Rightarrow> npfloat list \<Rightarrow> npfloat list \<Rightarrow> error + npfloat list" where
  "np_binop f xs ys =
     (if length xs = length ys then Inr (map2 f xs ys)
      else if length xs = 1 then Inr (map (f (hd xs)) ys)
      else if length ys = 1 then Inr (map (\<lambda>x. f x (hd ys)) xs)
      else Inl (ValueError ''operands could not be broadcast together''))"

section \<open>Dates\<close>

text \<open>
  A calendar day is its number of days since 1970-01-01 (the epoch of pandas
  timestamps).  The attributes the program reads (\<open>.year\<close>, \<open>.month\<close>, \<open>.day\<close>,
  \<open>.dayofweek\<close> with Monday = 0) are computed from it in the proleptic Gregorian
  calendar.
\<close>

type_synonym date = int

definition civil :: "date \<Rightarrow> int \<times> int \<times> int" where
  "civil d =
     (let z = d + 719468;
          era = z div 146097;
          doe = z - era * 146097;
          yoe = (doe - doe div 1460 + doe div 36524 - doe div 146096) div 365;
          doy = doe - (365 * yoe + yoe div 4 - yoe div 100);
          mp = (5 * doy + 2) div 153;
          dd = doy - (153 * mp + 2) div 5 + 1;
          m = (if mp < 10 then mp + 3 else mp - 9);
          y = yoe + era * 400 + (if m \<le> 2 then 1 else 0)
      in (y, m, dd))"

definition year_of :: "date \<Rightarrow> int" where
  "year_of d = fst (civil d)"

definition month_of :: "date \<Rightarrow> int" where
  "month_of d = fst (snd (civil d))"

definition day_of :: "date \<Rightarrow> int" where
  "day_of d = snd (snd (civil d))"

definition dayofweek :: "date \<Rightarrow> int" where
  "dayofweek d = (d + 3) mod 7"

text \<open>\<open>.dt.to_period('M')\<close>: the month a day lies in, ordered chronologically.\<close>

definition to_period_M :: "date \<Rightarrow> int" where
  "to_period_M d = year_of d * 12 + (month_of d - 1)"

section \<open>The transaction table and the aggregation layer\<close>

record txn =
  transaction_id :: int
  date :: date
  region :: string
  product_category :: string
  customer_segment :: string
  quantity :: int
  unit_price :: real
  total_sales :: real
  currency :: string

text \<open>
  \<open>df.groupby(key)[value].sum()\<close>: one entry per distinct key, keys in ascending order
  (pandas sorts group keys by default), each with the float sum of the values of its
  rows.
  pandas leaves out rows whose key is missing; here every row has its key (a
  transaction always has a date, a region, a category and a segment).
\<close>

definition groupby_sum :: "('r \<Rightarrow> 'k::linorder) \<Rightarrow> ('r \<Rightarrow> real) \<Rightarrow> 'r list \<Rightarrow> ('k \<times> real) list" where
  "groupby_sum key val rows =
     map (\<lambda>k. (k, fsum (map val (filter (\<lambda>r. key r = k) rows))))
         (sort (remdups (map key rows)))"

text \<open>\<open>df.groupby('date')['total_sales'].sum().reset_index()\<close>: the DailySeries.\<close>

definition daily_sales :: "txn list \<Rightarrow> (date \<times> real) list" where
  "daily_sales rows = groupby_sum date total_sales rows"

section \<open>The forecasting library and the metrics library (external)\<close>

text \<open>
  Prophet and scikit-learn are not part of the repository; they are parameters of the
  model.  A Prophet object of type \<open>'m\<close> is created from a configuration, fitted on a
  daily series, asked for the future dates and asked to predict; every call but the
  constructor may raise.
\<close>

record prophet_config =
  yearly_seasonality :: bool
  weekly_seasonality :: bool
  daily_seasonality :: "bool option"
  changepoint_prior_scale :: real
  seasonality_mode :: string
  added_seasonality :: "(string \<times> real \<times> nat) list"

record frow =
  ds :: date
  yhat :: real
  yhat_lower :: real
  yhat_upper :: real

record 'm prophet =
  new_model :: "prophet_config \<Rightarrow> 'm"
  fit :: "'m \<Rightarrow> (date \<times> real) list \<Rightarrow> error + 'm"
  make_future_dataframe :: "'m \<Rightarrow> int \<Rightarrow> error + date list"
  predict :: "'m \<Rightarrow> date list \<Rightarrow> error + frow list"

record sklearn =
  mean_absolute_error :: "npfloat list \<Rightarrow> npfloat list \<Rightarrow> error + npfloat"
  mean_squared_error :: "npfloat list \<Rightarrow> npfloat list \<Rightarrow> error + npfloat"
  r2_score :: "npfloat list \<Rightarrow> npfloat list \<Rightarrow> error + npfloat"

text \<open>
  \<open>np.mean(np.abs((y_true - y_pred) / y_true)) * 100\<close>, the expression both
  \<open>SalesForecaster.evaluate_model\<close> and \<open>ForecastingService.generate_forecast\<close> compute.
\<close>

definition np_mape :: "npfloat list \<Rightarrow> npfloat list \<Rightarrow> error + npfloat" where
  "np_mape y_true y_pred =
     (case np_binop np_sub y_true y_pred of
        Inl e \<Rightarrow> Inl e
      | Inr d \<Rightarrow>
          (case np_binop np_div d y_true of
             Inl e \<Rightarrow> Inl e
           | Inr q \<Rightarrow> Inr (np_mul (np_mean (map np_abs q)) (Fin 100))))"

section \<open>forecasting\_model.py: SalesForecaster\<close>

record 'm SalesForecaster =
  model :: "'m option"
  df_train :: "(date \<times> real) list option"
  df_test :: "(date \<times> real) list option"

definition SalesForecaster_init :: "'m SalesForecaster" where
  "SalesForecaster_init = \<lparr>model = None, df_train = None, df_test = None\<rparr>"

text \<open>\<open>prepare_data\<close> with the default column names; \<open>test_size\<close> defaults to 90.\<close>

definition prepare_data :: "'m SalesForecaster \<Rightarrow> txn list \<Rightarrow> int \<Rightarrow> 'm SalesForecaster" where
  "prepare_data f df test_size =
     (let df_daily = daily_sales df;
          split_idx = int (length df_daily) - test_size
      in f\<lparr>df_train := Some (py_slice_to df_daily split_idx),
            df_test := Some (py_slice_from df_daily split_idx)\<rparr>)"

definition forecaster_config :: "bool \<Rightarrow> bool \<Rightarrow> bool \<Rightarrow> real \<Rightarrow> prophet_config" where
  "forecaster_config yearly weekly daily cps =
     \<lparr>yearly_seasonality = yearly, weekly_seasonality = weekly,
      daily_seasonality = Some daily, changepoint_prior_scale = cps,
      seasonality_mode = ''multiplicative'',
      added_seasonality = [(''monthly'', 30.5, 5)]\<rparr>"

text \<open>
  \<open>train_model\<close>: the new Prophet object is stored in \<open>self.model\<close> before it is
  fitted, so it stays there when the fit raises.  Fitting a forecaster that has no
  training frame hands \<open>None\<close> to the library, which raises.
\<close>

definition SalesForecaster_train_model ::
  "'m prophet \<Rightarrow> 'm SalesForecaster \<Rightarrow> bool \<Rightarrow> bool \<Rightarrow> bool \<Rightarrow> real
     \<Rightarrow> (error + unit) \<times> 'm SalesForecaster" where
  "SalesForecaster_train_model P f yearly weekly daily cps =
     (let m0 = new_model P (forecaster_config yearly weekly daily cps);
          f0 = f\<lparr>model := Some m0\<rparr>
      in case df_train f of
           None \<Rightarrow> (Inl (TypeError ''argument of type NoneType is not iterable''), f0)
         | Some train \<Rightarrow>
             (case fit P m0 train of
                Inl e \<Rightarrow> (Inl e, f0)
              | Inr m \<Rightarrow> (Inr (), f\<lparr>model := Some m\<rparr>)))"

definition forecast :: "'m prophet \<Rightarrow> 'm SalesForecaster \<Rightarrow> int \<Rightarrow> error + frow list" where
  "forecast P f periods =
     (case model f of
        None \<Rightarrow> Inl (ValueError ''Model not trained. Call train_model() first.'')
      | Some m \<Rightarrow>
          (case make_future_dataframe P m periods of
             Inl e \<Rightarrow> Inl e
           | Inr future \<Rightarrow> predict P m future))"

record evaluation_metrics =
  MAE :: npfloat
  RMSE :: npfloat
  MAPE :: npfloat
  R2 :: npfloat

text \<open>
  \<open>evaluate_model\<close> has no check of its own: it reads \<open>self.df_train\<close>,
  \<open>self.df_test\<close> and \<open>self.model\<close> in this order, and the first that is \<open>None\<close>
  makes the attribute access or the subscript raise.
\<close>

definition evaluate_model ::
  "'m prophet \<Rightarrow> sklearn \<Rightarrow> 'm SalesForecaster \<Rightarrow> error + evaluation_metrics" where
  "evaluate_model P S f =
     (case df_train f of
        None \<Rightarrow> Inl (AttributeError ''NoneType object has no attribute copy'')
      | Some train \<Rightarrow>
     (case df_test f of
        None \<Rightarrow> Inl (TypeError ''NoneType object is not subscriptable'')
      | Some test \<Rightarrow>
     (case model f of
        None \<Rightarrow> Inl (AttributeError ''NoneType object has no attribute predict'')
      | Some m \<Rightarrow>
     (case predict P m (map fst train @ map fst test) of
        Inl e \<Rightarrow> Inl e
      | Inr fc \<Rightarrow>
     (let test_forecast = py_slice_from fc (- int (length test));
          y_true = map (\<lambda>r. Fin (snd r)) test;
          y_pred = map (\<lambda>r. Fin (yhat r)) test_forecast
      in case mean_absolute_error S y_true y_pred of
           Inl e \<Rightarrow> Inl e
         | Inr mae \<Rightarrow>
        (case mean_squared_error S y_true y_pred of
           Inl e \<Rightarrow> Inl e
         | Inr mse \<Rightarrow>
        (case np_mape y_true y_pred of
           Inl e \<Rightarrow> Inl e
         | Inr mape \<Rightarrow>
        (case r2_score S y_true y_pred of
           Inl e \<Rightarrow> Inl e
         | Inr r2 \<Rightarrow>
             Inr \<lparr>MAE = mae, RMSE = np_sqrt mse, MAPE = mape, R2 = r2\<rparr>))))))))"

section \<open>backend/model.py: ForecastingService\<close>

record 'm ForecastingService =
  svc_df :: "txn list option"
  svc_model :: "'m option"
  data_loaded :: bool
  model_trained :: bool

definition ForecastingService_init :: "'m ForecastingService" where
  "ForecastingService_init =
     \<lparr>svc_df = None, svc_model = None, data_loaded = False, model_trained = False\<rparr>"

text \<open>\<open>load_data\<close>: the outcome of reading and parsing the CSV file is the argument.\<close>

definition load_data :: "'m ForecastingService \<Rightarrow> error + txn list \<Rightarrow> 'm ForecastingService" where
  "load_data svc csv =
     (case csv of
        Inr rows \<Rightarrow> svc\<lparr>svc_df := Some rows, data_loaded := True\<rparr>
      | Inl e \<Rightarrow> svc\<lparr>data_loaded := False\<rparr>)"

definition service_config :: prophet_config where
  "service_config =
     \<lparr>yearly_seasonality = True, weekly_seasonality = True,
      daily_seasonality = Some False, changepoint_prior_scale = 0.05,
      seasonality_mode = ''multiplicative'',
      added_seasonality = [(''monthly'', 30.5, 5)]\<rparr>"

definition temp_config :: prophet_config where
  "temp_config =
     \<lparr>yearly_seasonality = True, weekly_seasonality = True,
      daily_seasonality = None, changepoint_prior_scale = 0.05,
      seasonality_mode = ''multiplicative'',
      added_seasonality = []\<rparr>"

definition ForecastingService_train_model ::
  "'m prophet \<Rightarrow> 'm ForecastingService \<Rightarrow> (error + unit) \<times> 'm ForecastingService" where
  "ForecastingService_train_model P svc =
     (if \<not> data_loaded svc then (Inl (ValueError ''Data not loaded''), svc)
      else case svc_df svc of
             None \<Rightarrow> (Inl (AttributeError ''NoneType object has no attribute groupby''), svc)
           | Some d \<Rightarrow>
               (let m0 = new_model P service_config
                in case fit P m0 (daily_sales d) of
                     Inl e \<Rightarrow> (Inl e, svc\<lparr>svc_model := Some m0\<rparr>)
                   | Inr m \<Rightarrow> (Inr (), svc\<lparr>svc_model := Some m, model_trained := True\<rparr>)))"

record forecast_metrics =
  mae :: npfloat
  mape :: npfloat
  total_forecast :: npfloat
  avg_daily :: npfloat

record forecast_response =
  dates :: "date list"
  predictions :: "real list"
  lower_bound :: "real list"
  upper_bound :: "real list"
  metrics :: forecast_metrics

text \<open>The two filters of \<open>generate_forecast\<close>, applied one after the other.\<close>

definition filter_category_region :: "string option \<Rightarrow> string option \<Rightarrow> txn list \<Rightarrow> txn list" where
  "filter_category_region category reg d =
     (let d1 = (if truthy category then filter (\<lambda>r. product_category r = the category) d else d)
      in if truthy reg then filter (\<lambda>r. region r = the reg) d1 else d1)"

text \<open>
  The metrics block of \<open>generate_forecast\<close>: guarded against an empty history and an
  empty daily series only.
\<close>

definition historical_metrics :: "real list \<Rightarrow> real list \<Rightarrow> error + (npfloat \<times> npfloat)" where
  "historical_metrics hist daily =
     (if 0 < length hist \<and> 0 < length daily then
        (case np_binop np_sub (map Fin hist) (map Fin daily) of
           Inl e \<Rightarrow> Inl e
         | Inr d \<Rightarrow>
             (case np_mape (map Fin daily) (map Fin hist) of
                Inl e \<Rightarrow> Inl e
              | Inr mp \<Rightarrow> Inr (np_mean (map np_abs d), mp)))
      else Inr (Fin 0, Fin 0))"

definition generate_forecast ::
  "'m prophet \<Rightarrow> 'm ForecastingService \<Rightarrow> int \<Rightarrow> string option \<Rightarrow> string option
     \<Rightarrow> error + forecast_response" where
  "generate_forecast P svc periods category reg =
     (if \<not> model_trained svc then Inl (ValueError ''Model not trained'')
      else case svc_df svc of
        None \<Rightarrow> Inl (AttributeError ''NoneType object has no attribute copy'')
      | Some d \<Rightarrow>
     (let df_filtered = filter_category_region category reg d
      in case (if truthy category \<or> truthy reg
               then fit P (new_model P temp_config) (daily_sales df_filtered)
               else (case svc_model svc of
                       None \<Rightarrow> Inl (AttributeError
                                 ''NoneType object has no attribute make_future_dataframe'')
                     | Some m \<Rightarrow> Inr m)) of
        Inl e \<Rightarrow> Inl e
      | Inr m \<Rightarrow>
     (case make_future_dataframe P m periods of
        Inl e \<Rightarrow> Inl e
      | Inr future \<Rightarrow>
     (case predict P m future of
        Inl e \<Rightarrow> Inl e
      | Inr fc \<Rightarrow>
     (let forecast_future = py_slice_from fc (- periods);
          historical = py_slice_to fc (- periods);
          df_daily = daily_sales df_filtered
      in case historical_metrics (map yhat historical) (map snd df_daily) of
           Inl e \<Rightarrow> Inl e
         | Inr (mae_v, mape_v) \<Rightarrow>
             Inr \<lparr>dates = map ds forecast_future,
                  predictions = map (\<lambda>r. round2 (yhat r)) forecast_future,
                  lower_bound = map (\<lambda>r. round2 (yhat_lower r)) forecast_future,
                  upper_bound = map (\<lambda>r. round2 (yhat_upper r)) forecast_future,
                  metrics = \<lparr>mae = mae_v, mape = mape_v,
                     total_forecast = Fin (sum_list (map yhat forecast_future)),
                     avg_daily = pd_mean (map (\<lambda>r. Fin (yhat r)) forecast_future)\<rparr>\<rparr>)))))"

record historical_response =
  h_dates :: "date list"
  h_sales :: "real list"

text \<open>
  \<open>get_historical_data\<close>: the date arguments are given already parsed, \<open>None\<close> standing
  for an absent or empty string.
\<close>

definition get_historical_data ::
  "'m ForecastingService \<Rightarrow> date option \<Rightarrow> date option \<Rightarrow> string option
     \<Rightarrow> error + historical_response" where
  "get_historical_data svc start_d end_d category =
     (case svc_df svc of
        None \<Rightarrow> Inl (AttributeError ''NoneType object has no attribute copy'')
      | Some d \<Rightarrow>
          (let d1 = (case start_d of None \<Rightarrow> d | Some s \<Rightarrow> filter (\<lambda>r. s \<le> date r) d);
               d2 = (case end_d of None \<Rightarrow> d1 | Some e \<Rightarrow> filter (\<lambda>r. date r \<le> e) d1);
               d3 = (if truthy category
                     then filter (\<lambda>r. product_category r = the category) d2 else d2);
               daily = daily_sales d3
           in Inr \<lparr>h_dates = map fst daily, h_sales = map (\<lambda>p. round2 (snd p)) daily\<rparr>))"

section \<open>data\_generator.py: EthiopiaSalesDataGenerator\<close>

text \<open>
  The generator draws from the two process-wide random sources, Python's \<open>random\<close> and
  \<open>numpy.random\<close>.  Their states (\<open>'p\<close> and \<open>'n\<close>) and their algorithms are parameters:
  seeding gives a state, a draw gives a value and the next state.
\<close>

record ('p, 'n) rng_lib =
  py_seed :: "int \<Rightarrow> 'p"
  raw_below :: "nat \<Rightarrow> 'p \<Rightarrow> nat \<times> 'p"
  np_seed :: "int \<Rightarrow> 'n"
  np_normal :: "real \<Rightarrow> real \<Rightarrow> 'n \<Rightarrow> real \<times> 'n"

record ('p, 'n) rng =
  py_rng :: 'p
  np_rng :: 'n

text \<open>
  \<open>Random._randbelow(n)\<close>, the draw below \<open>n\<close> that \<open>randint\<close> and \<open>choice\<close> are built
  on; its result lies in \<open>[0, n)\<close>.  The sequences the generator chooses from are its
  three constant, non-empty lists.
\<close>

definition randbelow :: "('p, 'n) rng_lib \<Rightarrow> nat \<Rightarrow> 'p \<Rightarrow> nat \<times> 'p" where
  "randbelow L n s = (let (k, s') = raw_below L n s in (k mod n, s'))"

definition randint :: "('p, 'n) rng_lib \<Rightarrow> int \<Rightarrow> int \<Rightarrow> 'p \<Rightarrow> int \<times> 'p" where
  "randint L a b s = (let (k, s') = randbelow L (nat (b - a + 1)) s in (a + int k, s'))"

definition choice :: "('p, 'n) rng_lib \<Rightarrow> 'a list \<Rightarrow> 'p \<Rightarrow> 'a \<times> 'p" where
  "choice L seq s = (let (k, s') = randbelow L (length seq) s in (seq ! k, s'))"

record generator =
  start_date :: date
  end_date :: date
  seed :: int
  regions :: "string list"
  product_categories :: "string list"
  customer_segments :: "string list"

text \<open>
  \<open>__init__\<close> seeds numpy first, then Python's \<open>random\<close>; numpy accepts a seed from
  \<open>0\<close> to \<open>2**32 - 1\<close> only and raises otherwise, before \<open>random\<close> is seeded.
\<close>

definition EthiopiaSalesDataGenerator_init ::
  "('p, 'n) rng_lib \<Rightarrow> date \<Rightarrow> date \<Rightarrow> int \<Rightarrow> ('p, 'n) rng
     \<Rightarrow> (error + generator) \<times> ('p, 'n) rng" where
  "EthiopiaSalesDataGenerator_init L start_d end_d sd g =
     (if sd < 0 \<or> 2 ^ 32 \<le> sd
      then (Inl (ValueError ''Seed must be between 0 and 2**32 - 1''), g)
      else (Inr \<lparr>start_date = start_d, end_date = end_d, seed = sd,
                 regions = [''Addis Ababa'', ''Oromia'', ''Amhara'', ''Tigray'', ''SNNPR'',
                            ''Somali'', ''Afar'', ''Dire Dawa''],
                 product_categories = [''Coffee'', ''Teff'', ''Electronics'', ''Textiles'',
                            ''Spices'', ''Livestock'', ''Vegetables'', ''Injera'',
                            ''Leather Goods'', ''Cereals''],
                 customer_segments = [''Retail'', ''Wholesale'', ''Export'', ''B2B'',
                            ''Direct Consumer'']\<rparr>,
            \<lparr>py_rng = py_seed L sd, np_rng = np_seed L sd\<rparr>))"

definition generate_date_range :: "generator \<Rightarrow> date list" where
  "generate_date_range G = [start_date G .. end_date G]"

definition add_seasonality :: "real \<Rightarrow> date \<Rightarrow> real" where
  "add_seasonality base_value d =
     (let month_factor = 1 + 0.2 * sin (2 * pi * real_of_int (month_of d) / 12);
          month_factor =
            (if month_of d = 9 \<and> 1 \<le> day_of d \<and> day_of d \<le> 15 then month_factor * 1.5
             else if month_of d = 1 \<and> 7 \<le> day_of d \<and> day_of d \<le> 20 then month_factor * 1.4
             else if month_of d = 9 \<and> 27 \<le> day_of d \<and> day_of d \<le> 30 then month_factor * 1.3
             else if month_of d = 12 then month_factor * 1.6
             else month_factor);
          month_factor = (if 5 \<le> dayofweek d then month_factor * 0.85 else month_factor)
      in base_value * month_factor)"

definition add_trend :: "real \<Rightarrow> int \<Rightarrow> real" where
  "add_trend base_value days_from_start =
     (let annual_growth = 0.10;
          daily_growth = annual_growth / 365
      in base_value * (1 + daily_growth * real_of_int days_from_start))"

fun base_amounts :: "string \<Rightarrow> real option" where
  "base_amounts product =
     (if product = ''Coffee'' then Some 5000
      else if product = ''Teff'' then Some 3000
      else if product = ''Electronics'' then Some 15000
      else if product = ''Textiles'' then Some 8000
      else if product = ''Spices'' then Some 2000
      else if product = ''Livestock'' then Some 20000
      else if product = ''Vegetables'' then Some 1500
      else if product = ''Injera'' then Some 1000
      else if product = ''Leather Goods'' then Some 12000
      else if product = ''Cereals'' then Some 4000
      else None)"

text \<open>
  The body of the inner loop after its four draws (region, product, segment, and the
  noise factor that \<open>add_noise\<close> takes from \<open>np.random.normal(1, 0.15)\<close>).
\<close>

definition make_transaction ::
  "int \<Rightarrow> date \<Rightarrow> date \<Rightarrow> string \<Rightarrow> string \<Rightarrow> string \<Rightarrow> real \<Rightarrow> txn" where
  "make_transaction tid start_d d reg product segment noise_factor =
     (let days_from_start = d - start_d;
          base_amount = (case base_amounts product of Some b \<Rightarrow> b | None \<Rightarrow> 5000);
          amount = add_trend base_amount days_from_start;
          amount = add_seasonality amount d;
          amount = amount * noise_factor;
          amount = max 100 amount;
          unit_price0 = base_amount / 10;
          qty = py_int (amount / unit_price0);
          qty = max 1 qty;
          amount = (if reg = ''Addis Ababa'' then amount * 1.3
                    else if reg = ''Oromia'' then amount * 1.1
                    else if reg = ''Afar'' then amount * 0.7
                    else amount);
          (amount, qty) = (if segment = ''Wholesale'' then (amount * 1.5, qty * 2)
                           else if segment = ''Export'' then (amount * 2.0, qty * 3)
                           else (amount, qty))
      in \<lparr>transaction_id = tid, date = d, region = reg, product_category = product,
          customer_segment = segment, quantity = qty,
          unit_price = round2 (amount / real_of_int qty),
          total_sales = round2 amount, currency = ''ETB''\<rparr>)"

text \<open>The inner loop: \<open>n\<close> transactions of one day.\<close>

fun gen_transactions ::
  "('p, 'n) rng_lib \<Rightarrow> generator \<Rightarrow> date \<Rightarrow> nat \<Rightarrow> int \<Rightarrow> ('p, 'n) rng
     \<Rightarrow> txn list \<times> int \<times> ('p, 'n) rng" where
  "gen_transactions L G d 0 tid g = ([], tid, g)"
| "gen_transactions L G d (Suc n) tid g =
     (let (reg, p1) = choice L (regions G) (py_rng g);
          (product, p2) = choice L (product_categories G) p1;
          (segment, p3) = choice L (customer_segments G) p2;
          (noise_factor, n1) = np_normal L 1 0.15 (np_rng g);
          row = make_transaction tid (start_date G) d reg product segment noise_factor;
          (rows, tid', g') = gen_transactions L G d n (tid + 1) \<lparr>py_rng = p3, np_rng = n1\<rparr>
      in (row # rows, tid', g'))"

text \<open>The outer loop over the days, each with 5 to 20 transactions.\<close>

fun gen_days ::
  "('p, 'n) rng_lib \<Rightarrow> generator \<Rightarrow> date list \<Rightarrow> int \<Rightarrow> ('p, 'n) rng
     \<Rightarrow> txn list \<times> int \<times> ('p, 'n) rng" where
  "gen_days L G [] tid g = ([], tid, g)"
| "gen_days L G (d # days) tid g =
     (let (num_transactions, p1) = randint L 5 20 (py_rng g);
          (rows, tid1, g1) = gen_transactions L G d (nat num_transactions) tid (g\<lparr>py_rng := p1\<rparr>);
          (rest, tid2, g2) = gen_days L G days tid1 g1
      in (rows @ rest, tid2, g2))"

definition generate_sales_data ::
  "('p, 'n) rng_lib \<Rightarrow> generator \<Rightarrow> ('p, 'n) rng \<Rightarrow> txn list \<times> ('p, 'n) rng" where
  "generate_sales_data L G g =
     (let (rows, tid, g') = gen_days L G (generate_date_range G) 1000 g in (rows, g'))"

text \<open>One run of the generator: construct it with the arguments, then generate.\<close>

definition run_generator ::
  "('p, 'n) rng_lib \<Rightarrow> date \<Rightarrow> date \<Rightarrow> int \<Rightarrow> ('p, 'n) rng \<Rightarrow> error + txn list" where
  "run_generator L start_d end_d sd g =
     (case EthiopiaSalesDataGenerator_init L start_d end_d sd g of
        (Inl e, g1) \<Rightarrow> Inl e
      | (Inr G, g1) \<Rightarrow> Inr (fst (generate_sales_data L G g1)))"

section \<open>insight\_engine.py: InsightEngine\<close>

text \<open>
  The engine assigns columns of its data frame, so frames live in a store and are
  referred to by address.  A frame is its rows, the state of its date column (as
  loaded, or coerced by \<open>pd.to_datetime\<close>) and the \<open>month\<close> column once it is added.
\<close>

record dataframe =
  rows :: "txn list"
  date_coerced :: bool
  month_col :: "int list option"

type_synonym store = "dataframe list"

definition alloc :: "store \<Rightarrow> dataframe \<Rightarrow> nat \<times> store" where
  "alloc s v = (length s, s @ [v])"

text \<open>
  An insight without its two prose fields (description and recommendation).  Numbers
  and names that an analysis computes for these two fields only (the peak and low
  months of \<open>analyze_seasonality\<close>, the formatted totals) are left out with them.
\<close>

record insight =
  category :: string
  severity :: string
  title :: string

record InsightEngine =
  sales_df :: nat
  forecast_df :: "frow list option"
  insights :: "insight list"

text \<open>\<open>__init__\<close>: \<open>sales_df.copy()\<close> is a new frame; the forecast frame is kept as given.\<close>

definition InsightEngine_init :: "store \<Rightarrow> nat \<Rightarrow> frow list option \<Rightarrow> InsightEngine \<times> store" where
  "InsightEngine_init s a fdf =
     (let (b, s') = alloc s (s ! a)
      in (\<lparr>sales_df = b, forecast_df = fdf, insights = []\<rparr>, s'))"

text \<open>\<open>Series.pct_change()\<close>: \<open>x / x.shift(1) - 1\<close>, NaN in the first place.\<close>

definition pct_change :: "npfloat list \<Rightarrow> npfloat list" where
  "pct_change xs =
     (case xs of [] \<Rightarrow> []
      | x # rest \<Rightarrow> NaN # map2 (\<lambda>prev cur. np_sub (np_div cur prev) (Fin 1)) xs rest)"

definition monthly_sales :: "txn list \<Rightarrow> (int \<times> real) list" where
  "monthly_sales rs = groupby_sum (\<lambda>r. to_period_M (date r)) total_sales rs"

definition growth_rates :: "txn list \<Rightarrow> npfloat list" where
  "growth_rates rs =
     map (\<lambda>g. np_mul g (Fin 100)) (pct_change (map (\<lambda>p. Fin (snd p)) (monthly_sales rs)))"

definition avg_growth :: "txn list \<Rightarrow> npfloat" where
  "avg_growth rs = pd_mean (growth_rates rs)"

definition recent_growth :: "txn list \<Rightarrow> npfloat" where
  "recent_growth rs = pd_mean (py_slice_from (growth_rates rs) (- 3))"

definition trend_insights :: "npfloat \<Rightarrow> npfloat \<Rightarrow> insight list" where
  "trend_insights avg recent =
     (if np_gt avg (Fin 5) then
        [\<lparr>category = ''Growth'', severity = ''positive'', title = ''Strong Overall Growth''\<rparr>]
      else if np_lt avg (Fin (- 5)) then
        [\<lparr>category = ''Growth'', severity = ''warning'', title = ''Declining Sales Trend''\<rparr>]
      else [])
     @ (if np_gt recent (np_add avg (Fin 5)) then
        [\<lparr>category = ''Growth'', severity = ''positive'', title = ''Accelerating Growth''\<rparr>]
      else [])"

definition analyze_trends :: "InsightEngine \<Rightarrow> store \<Rightarrow> InsightEngine \<times> store" where
  "analyze_trends E s =
     (let s1 = s[sales_df E := (s ! sales_df E)\<lparr>date_coerced := True\<rparr>];
          rs = rows (s1 ! sales_df E)
      in (E\<lparr>insights := insights E @ trend_insights (avg_growth rs) (recent_growth rs)\<rparr>, s1))"

definition analyze_seasonality :: "InsightEngine \<Rightarrow> store \<Rightarrow> InsightEngine \<times> store" where
  "analyze_seasonality E s =
     (let df = s ! sales_df E;
          s1 = s[sales_df E := df\<lparr>month_col := Some (map (\<lambda>r. month_of (date r)) (rows df))\<rparr>]
      in (E\<lparr>insights := insights E @
            [\<lparr>category = ''Seasonality'', severity = ''info'', title = ''Peak Sales Periods''\<rparr>,
             \<lparr>category = ''Seasonality'', severity = ''info'', title = ''Low Sales Periods''\<rparr>]\<rparr>,
          s1))"

text \<open>
  \<open>groupby(key).agg(...).round(2)\<close> sorted by the total, largest first (a stable
  sort; pandas leaves the order of equal totals open).
\<close>

definition sales_by :: "(txn \<Rightarrow> string) \<Rightarrow> txn list \<Rightarrow> (string \<times> real) list" where
  "sales_by key rs =
     sort_key (\<lambda>p. - snd p) (map (\<lambda>p. (fst p, round2 (snd p))) (groupby_sum key total_sales rs))"

definition analyze_products :: "InsightEngine \<Rightarrow> store \<Rightarrow> error + InsightEngine" where
  "analyze_products E s =
     (let product_sales = sales_by product_category (rows (s ! sales_df E))
      in if product_sales = []
         then Inl (IndexError ''index 0 is out of bounds for axis 0 with size 0'')
         else
           (let top_product = fst (hd product_sales);
                top_revenue = snd (hd product_sales);
                bottom_product = fst (last product_sales);
                bottom_revenue = snd (last product_sales);
                revenue_ratio = np_div (Fin top_revenue) (Fin bottom_revenue)
            in Inr (E\<lparr>insights := insights E @
                 [\<lparr>category = ''Products'', severity = ''positive'',
                   title = top_product @ '' - Top Performer''\<rparr>] @
                 (if np_gt revenue_ratio (Fin 10) then
                    [\<lparr>category = ''Products'', severity = ''warning'',
                      title = bottom_product @ '' - Underperforming''\<rparr>]
                  else [])\<rparr>)))"

definition analyze_regions :: "InsightEngine \<Rightarrow> store \<Rightarrow> error + InsightEngine" where
  "analyze_regions E s =
     (let regional_sales = sales_by region (rows (s ! sales_df E))
      in if regional_sales = []
         then Inl (IndexError ''index 0 is out of bounds for axis 0 with size 0'')
         else
           (let top_region = fst (hd regional_sales);
                bottom_region = fst (last regional_sales)
            in Inr (E\<lparr>insights := insights E @
                 [\<lparr>category = ''Geography'', severity = ''positive'',
                   title = top_region @ '' - Top Regional Market''\<rparr>,
                  \<lparr>category = ''Geography'', severity = ''warning'',
                   title = bottom_region @ '' - Growth Opportunity''\<rparr>]\<rparr>)))"

definition analyze_customer_segments :: "InsightEngine \<Rightarrow> store \<Rightarrow> error + InsightEngine" where
  "analyze_customer_segments E s =
     (let segment_sales = sales_by customer_segment (rows (s ! sales_df E))
      in if segment_sales = []
         then Inl (IndexError ''index 0 is out of bounds for axis 0 with size 0'')
         else
           (let top_segment = fst (hd segment_sales)
            in Inr (E\<lparr>insights := insights E @
                 [\<lparr>category = ''Customers'', severity = ''info'',
                   title = top_segment @ '' - Primary Customer Base''\<rparr>]\<rparr>)))"

definition analyze_forecast :: "InsightEngine \<Rightarrow> store \<Rightarrow> InsightEngine" where
  "analyze_forecast E s =
     (case forecast_df E of
        None \<Rightarrow> E
      | Some fdf \<Rightarrow>
          (let recent_avg = pd_mean (map (\<lambda>p. Fin (snd p))
                              (py_slice_from (daily_sales (rows (s ! sales_df E))) (- 30)));
               forecast_avg = pd_mean (map (\<lambda>r. Fin (yhat r)) (py_slice_from fdf (- 30)));
               change_pct = np_mul (np_div (np_sub forecast_avg recent_avg) recent_avg) (Fin 100)
           in E\<lparr>insights := insights E @
                [if np_gt change_pct (Fin 10) then
                   \<lparr>category = ''Forecast'', severity = ''positive'',
                    title = ''Strong Growth Expected''\<rparr>
                 else if np_lt change_pct (Fin (- 10)) then
                   \<lparr>category = ''Forecast'', severity = ''warning'',
                    title = ''Sales Decline Expected''\<rparr>
                 else
                   \<lparr>category = ''Forecast'', severity = ''info'',
                    title = ''Stable Sales Expected''\<rparr>]\<rparr>))"

text \<open>
  \<open>generate_all_insights\<close>: the six analyses in order; an exception leaves the engine
  and the store as the analyses before it made them.
\<close>

definition generate_all_insights ::
  "InsightEngine \<Rightarrow> store \<Rightarrow> (error + insight list) \<times> InsightEngine \<times> store" where
  "generate_all_insights E s =
     (let (E1, s1) = analyze_trends E s;
          (E2, s2) = analyze_seasonality E1 s1
      in case analyze_products E2 s2 of
           Inl e \<Rightarrow> (Inl e, E2, s2)
         | Inr E3 \<Rightarrow>
        (case analyze_regions E3 s2 of
           Inl e \<Rightarrow> (Inl e, E3, s2)
         | Inr E4 \<Rightarrow>
        (case analyze_customer_segments E4 s2 of
           Inl e \<Rightarrow> (Inl e, E4, s2)
         | Inr E5 \<Rightarrow>
             (let E6 = analyze_forecast E5 s2 in (Inr (insights E6), E6, s2)))))"

section \<open>Example data and library doubles\<close>

text \<open>A table of one coffee sale on 2020-01-01.\<close>

definition example_table :: "txn list" where
  "example_table =
     [\<lparr>transaction_id = 1000, date = 18262, region = ''Addis Ababa'',
       product_category = ''Coffee'', customer_segment = ''Retail'', quantity = 10,
       unit_price = 500, total_sales = 5000, currency = ''ETB''\<rparr>]"

text \<open>
  A stand-in for Prophet with the same interface: the fitted model is the training
  series, a fit on fewer than two rows raises as Prophet's does, the forecast is the
  mean of the training values with a band of one unit on each side.
\<close>

definition naive_prophet :: "((date \<times> real) list) prophet" where
  "naive_prophet =
     \<lparr>new_model = (\<lambda>cfg. []),
      fit = (\<lambda>m series. if length series < 2
                          then Inl (ValueError ''Dataframe has less than 2 non-NaN rows.'')
                          else Inr series),
      make_future_dataframe = (\<lambda>m periods.
          Inr (map fst m @ (if m = [] then [] else [fst (last m) + 1 .. fst (last m) + periods]))),
      predict = (\<lambda>m days.
          Inr (map (\<lambda>d. \<lparr>ds = d, yhat = sum_list (map snd m) / real (length m),
                          yhat_lower = sum_list (map snd m) / real (length m) - 1,
                          yhat_upper = sum_list (map snd m) / real (length m) + 1\<rparr>) days))\<rparr>"

definition example_service :: "((date \<times> real) list) ForecastingService" where
  "example_service =
     \<lparr>svc_df = Some example_table, svc_model = Some [(18262, 5000)],
      data_loaded = True, model_trained = True\<rparr>"

text \<open>
  A stand-in for the three scikit-learn metrics: their textbook formulas behind the
  input checks of the library (equal lengths, at least one sample, finite values).
\<close>

definition checked_metric ::
  "(npfloat list \<Rightarrow> npfloat list \<Rightarrow> npfloat) \<Rightarrow> npfloat list \<Rightarrow> npfloat list \<Rightarrow> error + npfloat" where
  "checked_metric f y_true y_pred =
     (if length y_true \<noteq> length y_pred
      then Inl (ValueError ''Found input variables with inconsistent numbers of samples'')
      else if y_true = [] then Inl (ValueError ''Found array with 0 sample(s)'')
      else if \<not> list_all is_finite (y_true @ y_pred)
      then Inl (ValueError ''Input contains NaN or infinity'')
      else Inr (f y_true y_pred))"

definition formula_sklearn :: sklearn where
  "formula_sklearn =
     \<lparr>mean_absolute_error = checked_metric (\<lambda>yt yp. np_mean (map np_abs (map2 np_sub yt yp))),
      mean_squared_error = checked_metric (\<lambda>yt yp.
         np_mean (map (\<lambda>x. np_mul x x) (map2 np_sub yt yp))),
      r2_score = checked_metric (\<lambda>yt yp.
         (let ss_res = np_sum (map (\<lambda>x. np_mul x x) (map2 np_sub yt yp));
              ss_tot = np_sum (map (\<lambda>y. np_mul (np_sub y (np_mean yt)) (np_sub y (np_mean yt))) yt)
          in if ss_tot = Fin 0 then (if ss_res = Fin 0 then Fin 1 else Fin 0)
             else np_sub (Fin 1) (np_div ss_res ss_tot)))\<rparr>"

text \<open>Four days of sales, the third with a total of zero, and a forecaster trained on
  the first two with the last two held out.\<close>

definition sale :: "int \<Rightarrow> date \<Rightarrow> real \<Rightarrow> txn" where
  "sale tid d v =
     \<lparr>transaction_id = tid, date = d, region = ''Oromia'', product_category = ''Teff'',
      customer_segment = ''Retail'', quantity = 1, unit_price = v, total_sales = v,
      currency = ''ETB''\<rparr>"

definition zero_day_table :: "txn list" where
  "zero_day_table = [sale 1000 18262 1, sale 1001 18263 1, sale 1002 18264 0, sale 1003 18265 2]"

definition zero_day_forecaster :: "((date \<times> real) list) SalesForecaster" where
  "zero_day_forecaster =
     snd (SalesForecaster_train_model naive_prophet
            (prepare_data SalesForecaster_init zero_day_table 2) True True False 0.05)"

text \<open>
  Scripted random sources for worked examples: the states are the lists of the draws
  still to come, seeding installs the script, and an exhausted script yields the first
  choice (index 0) and the mean of the normal distribution.
\<close>

definition pop_below :: "nat \<Rightarrow> nat list \<Rightarrow> nat \<times> nat list" where
  "pop_below n s = (case s of [] \<Rightarrow> (0, []) | k # rest \<Rightarrow> (k, rest))"

definition pop_normal :: "real \<Rightarrow> real \<Rightarrow> real list \<Rightarrow> real \<times> real list" where
  "pop_normal loc scale s = (case s of [] \<Rightarrow> (loc, []) | x # rest \<Rightarrow> (x, rest))"

definition scripted_rng :: "nat list \<Rightarrow> real list \<Rightarrow> (nat list, real list) rng_lib" where
  "scripted_rng py_script np_script =
     \<lparr>py_seed = (\<lambda>sd. py_script), raw_below = pop_below,
      np_seed = (\<lambda>sd. np_script), np_normal = pop_normal\<rparr>"

text \<open>The generator for the single day 2020-06-01 (a Monday) with seed 42, and a row of
  that day.\<close>

definition june_generator :: generator where
  "june_generator =
     \<lparr>start_date = 18414, end_date = 18414, seed = 42,
      regions = [''Addis Ababa'', ''Oromia'', ''Amhara'', ''Tigray'', ''SNNPR'',
                 ''Somali'', ''Afar'', ''Dire Dawa''],
      product_categories = [''Coffee'', ''Teff'', ''Electronics'', ''Textiles'',
                 ''Spices'', ''Livestock'', ''Vegetables'', ''Injera'',
                 ''Leather Goods'', ''Cereals''],
      customer_segments = [''Retail'', ''Wholesale'', ''Export'', ''B2B'',
                 ''Direct Consumer'']\<rparr>"

definition june_row :: "int \<Rightarrow> string \<Rightarrow> string \<Rightarrow> string \<Rightarrow> int \<Rightarrow> real \<Rightarrow> real \<Rightarrow> txn" where
  "june_row tid reg product segment qty price amt =
     \<lparr>transaction_id = tid, date = 18414, region = reg, product_category = product,
      customer_segment = segment, quantity = qty, unit_price = price, total_sales = amt,
      currency = ''ETB''\<rparr>"

text \<open>
  Three months of sales (one sale on the 15th of January, February and March 2020),
  growing slowly and growing fast, and a frame as the caller holds it.
\<close>

definition slow_growth_table :: "txn list" where
  "slow_growth_table = [sale 1 18276 100, sale 2 18307 101, sale 3 18336 102]"

definition fast_growth_table :: "txn list" where
  "fast_growth_table = [sale 1 18276 100, sale 2 18307 120, sale 3 18336 150]"

definition frame_of :: "txn list \<Rightarrow> dataframe" where
  "frame_of rs = \<lparr>rows = rs, date_coerced = False, month_col = None\<rparr>"

text \<open>The insights the engine gives for the slowly growing table.\<close>

definition slow_insights :: "insight list" where
  "slow_insights =
     [\<lparr>category = ''Seasonality'', severity = ''info'', title = ''Peak Sales Periods''\<rparr>,
      \<lparr>category = ''Seasonality'', severity = ''info'', title = ''Low Sales Periods''\<rparr>,
      \<lparr>category = ''Products'', severity = ''positive'', title = ''Teff - Top Performer''\<rparr>,
      \<lparr>category = ''Geography'', severity = ''positive'', title = ''Oromia - Top Regional Market''\<rparr>,
      \<lparr>category = ''Geography'', severity = ''warning'', title = ''Oromia - Growth Opportunity''\<rparr>,
      \<lparr>category = ''Customers'', severity = ''info'', title = ''Retail - Primary Customer Base''\<rparr>]"


section \<open>Verified properties\<close>

subsection \<open>Rounding\<close>

lemma rhe_ge_floor: "\<lfloor>x\<rfloor> \<le> round_half_even x"
  by (simp add: round_half_even_def Let_def)

lemma rhe_err: "\<bar>of_int (round_half_even x) - x\<bar> \<le> 1/2"
  unfolding round_half_even_def Let_def by (auto; linarith)

lemma rhe_of_int: "round_half_even (of_int k) = k"
  by (simp add: round_half_even_def Let_def)

lemma round2_err: "\<bar>round2 x - x\<bar> \<le> 1/200"
proof -
  have "\<bar>of_int (round_half_even (x * 100)) - x * 100\<bar> \<le> 1/2" by (rule rhe_err)
  then show ?thesis unfolding round2_def by (simp add: field_simps abs_le_iff)
qed

lemma round2_ge:
  assumes "of_int k / 100 \<le> x"
  shows "of_int k / 100 \<le> round2 x"
proof -
  from assms have "of_int k \<le> x * 100" by simp
  then have "k \<le> \<lfloor>x * 100\<rfloor>" by (simp add: le_floor_iff)
  also have "\<dots> \<le> round_half_even (x * 100)" by (rule rhe_ge_floor)
  finally show ?thesis by (simp add: round2_def divide_right_mono)
qed

lemma round2_cents: "round2 (of_int k / 100) = of_int k / 100"
  by (simp add: round2_def rhe_of_int)

subsection \<open>Double-precision addition\<close>

lemma floor_log2_iff:
  assumes "x \<noteq> 0"
  shows "(\<lfloor>log 2 \<bar>x\<bar>\<rfloor> = e) = (2 powi e \<le> \<bar>x\<bar> \<and> \<bar>x\<bar> < 2 powi (e + 1))"
proof -
  have "0 < \<bar>x\<bar>" using assms by simp
  then have "(\<lfloor>log 2 \<bar>x\<bar>\<rfloor> = e)
      = (2 powr real_of_int e \<le> \<bar>x\<bar> \<and> \<bar>x\<bar> < 2 powr real_of_int (e + 1))"
    by (intro floor_log_eq_powr_iff) auto
  then show ?thesis by (simp only: powr_real_of_int'[of 2, simplified])
qed



lemma fl_exact:
  assumes "\<bar>m\<bar> < 2 ^ 53"
  shows "fl (of_int m * 2 powi j) = of_int m * 2 powi j"
proof (cases "m = 0")
  case True
  then show ?thesis by (simp add: fl_def)
next
  case False
  define x :: real where "x = of_int m * 2 powi j"
  have pj: "0 < (2::real) powi j" by simp
  have nz: "x \<noteq> 0" using False pj by (simp add: x_def)
  define e where "e = \<lfloor>log 2 \<bar>x\<bar>\<rfloor>"
  have b: "2 powi e \<le> \<bar>x\<bar>" using nz floor_log2_iff[of x e] by (simp add: e_def)
  have "real_of_int \<bar>m\<bar> < 2 ^ 53" using assms by (metis of_int_less_numeral_power_cancel_iff of_int_abs)
  then have "\<bar>x\<bar> < 2 ^ 53 * 2 powi j"
    unfolding x_def using pj by (simp add: abs_mult)
  also have "\<dots> = 2 powi (53 + j)" using power_int_add[of "2::real" 53 j] by simp
  finally have "(2::real) powi e < 2 powi (53 + j)" using b by simp
  then have "e < 53 + j"
    by (metis power_int_increasing linorder_not_le one_le_numeral)
  then have k: "0 \<le> j - (e - 52)" by simp
  define k where "k = nat (j - (e - 52))"
  have "(2::real) powi j = 2 powi (e - 52) * 2 powi (j - (e - 52))"
    using power_int_add[of "2::real" "e - 52" "j - (e - 52)"] by simp
  also have "(2::real) powi (j - (e - 52)) = 2 ^ k" using k by (simp add: k_def power_int_def)
  finally have pjk: "(2::real) powi j = 2 powi (e - 52) * 2 ^ k" .
  have up: "0 < (2::real) powi (e - 52)" by simp
  have "x / 2 powi (e - 52) = of_int (m * 2 ^ k)"
    unfolding x_def pjk using up by simp
  then have "round_half_even (x / 2 powi (e - 52)) = m * 2 ^ k"
    by (simp only: rhe_of_int)
  then have "fl x = of_int (m * 2 ^ k) * 2 powi (e - 52)"
    using nz by (simp add: fl_def Let_def e_def)
  also have "\<dots> = x" unfolding x_def pjk by simp
  finally show ?thesis by (simp add: x_def)
qed

lemma fl_of_int: "\<bar>m\<bar> < 2 ^ 53 \<Longrightarrow> fl (of_int m) = of_int m"
  using fl_exact[of m 0] by simp

lemma fl_small [simp]: "fl 0 = 0" "fl 1 = 1"
  using fl_of_int[of 0] fl_of_int[of 1] by simp_all

lemma fl_numeral: "numeral n < (2::int) ^ 53 \<Longrightarrow> fl (numeral n) = numeral n"
  using fl_of_int[of "numeral n"] by simp







subsection \<open>Aggregation\<close>


lemma daily_sales_Nil: "daily_sales [] = []"
  by (simp add: daily_sales_def groupby_sum_def)









subsection \<open>Empty filter results\<close>

text \<open>
  C1 as stated fails: a historical-data request whose category filter matches no
  transaction returns a successful response with no dates and no sales.
\<close>

theorem empty_filter_counterexample:
  "get_historical_data example_service None None (Some ''Teff'')
     = Inr \<lparr>h_dates = [], h_sales = []\<rparr>"
  by (simp add: get_historical_data_def example_service_def example_table_def daily_sales_Nil)

text \<open>
  C1, amended.  When the category filter matches no transaction,
  \<open>get_historical_data\<close> returns a successful response with empty \<open>dates\<close> and
  \<open>sales\<close>, whatever the date bounds; \<open>generate_forecast\<close> has no check of its own
  either: it hands the empty daily series to the model fit, and when that raises, the
  request fails with the library's error.
\<close>

theorem empty_filter_result:
  assumes "svc_df svc = Some d"
    and "truthy categ"
    and "\<forall>r\<in>set d. product_category r \<noteq> the categ"
    and "model_trained svc"
    and "fit P (new_model P temp_config) [] = Inl e"
  shows "get_historical_data svc start_d end_d categ = Inr \<lparr>h_dates = [], h_sales = []\<rparr>
       \<and> generate_forecast P svc periods categ reg = Inl e"
proof -
  have a: "\<And>xs. (\<forall>r\<in>set xs. product_category r \<noteq> the categ) \<Longrightarrow>
       filter (\<lambda>r. product_category r = the categ) xs = []"
    by (simp add: filter_empty_conv)
  have sub: "\<forall>r\<in>set (case end_d of
                 None \<Rightarrow> (case start_d of None \<Rightarrow> d | Some s \<Rightarrow> filter (\<lambda>r. s \<le> date r) d)
               | Some e \<Rightarrow> filter (\<lambda>r. date r \<le> e)
                    (case start_d of None \<Rightarrow> d | Some s \<Rightarrow> filter (\<lambda>r. s \<le> date r) d)).
         product_category r \<noteq> the categ"
    using assms(3) by (auto split: option.splits)
  have 1: "get_historical_data svc start_d end_d categ = Inr \<lparr>h_dates = [], h_sales = []\<rparr>"
    using assms(1,2) a[OF sub] by (simp add: get_historical_data_def Let_def daily_sales_Nil)
  have f: "filter_category_region categ reg d = []"
    using assms(2) a[OF assms(3)] by (simp add: filter_category_region_def Let_def)
  have 2: "generate_forecast P svc periods categ reg = Inl e"
    using assms(1,2,4,5) f by (simp add: generate_forecast_def Let_def daily_sales_Nil)
  from 1 2 show ?thesis by simp
qed

theorem empty_filter_result_witness:
  "get_historical_data example_service (Some 18000) None (Some ''Teff'')
      = Inr \<lparr>h_dates = [], h_sales = []\<rparr>
   \<and> generate_forecast naive_prophet example_service 30 (Some ''Teff'') None
      = Inl (ValueError ''Dataframe has less than 2 non-NaN rows.'')"
  by (rule empty_filter_result[where d = example_table])
     (simp_all add: example_service_def example_table_def naive_prophet_def)

text \<open>The same for a region filter that matches no transaction.\<close>

lemma empty_region_filter:
  assumes "svc_df svc = Some d"
    and "truthy reg"
    and "\<forall>r\<in>set d. region r \<noteq> the reg"
    and "model_trained svc"
    and "fit P (new_model P temp_config) [] = Inl e"
  shows "generate_forecast P svc periods categ reg = Inl e"
proof -
  have "\<And>xs. set xs \<subseteq> set d \<Longrightarrow> filter (\<lambda>r. region r = the reg) xs = []"
    using assms(3) by (auto simp: filter_empty_conv)
  then have f: "filter_category_region categ reg d = []"
    using assms(2) by (simp add: filter_category_region_def Let_def)
  show ?thesis
    using assms(1,2,4,5) f by (simp add: generate_forecast_def Let_def daily_sales_Nil)
qed

subsection \<open>The forecaster before training\<close>

text \<open>
  C2.  On a forecaster that was never trained, \<open>forecast\<close> fails with the
  "Model not trained" error, but \<open>evaluate_model\<close> has no such check: on a new
  forecaster, and on one whose data is prepared, it fails with the attribute error of
  a \<open>None\<close> dereference instead.
\<close>

theorem untrained_forecaster:
  "forecast P SalesForecaster_init periods
      = Inl (ValueError ''Model not trained. Call train_model() first.'')
   \<and> evaluate_model P S SalesForecaster_init
      = Inl (AttributeError ''NoneType object has no attribute copy'')
   \<and> evaluate_model P S (prepare_data SalesForecaster_init table test_size)
      = Inl (AttributeError ''NoneType object has no attribute predict'')"
  by (simp add: forecast_def evaluate_model_def SalesForecaster_init_def prepare_data_def Let_def)

subsection \<open>The generator\<close>

text \<open>
  C5.  Two runs of the generator with the same \<open>(start_date, end_date, seed)\<close> produce
  the same table (or fail alike on an invalid seed), whatever state the two random
  sources were in before each run: constructing the generator reseeds both.
\<close>

theorem generator_deterministic:
  "run_generator L start_d end_d sd g = run_generator L start_d end_d sd g'"
  by (simp add: run_generator_def EthiopiaSalesDataGenerator_init_def)

subsection \<open>MAPE on a zero true value\<close>

lemma np_sub_Fin [simp]: "np_sub (Fin a) (Fin b) = Fin (a - b)"
  by (simp add: np_sub_def)

lemma np_abs_not_NInf [simp]: "np_abs x \<noteq> NInf"
  by (cases x) auto

lemma np_abs_finite [simp]: "is_finite (np_abs x) = is_finite x"
  by (cases x) auto

lemma np_div_by_zero [simp]: "\<not> is_finite (np_div (Fin a) (Fin 0))"
  by simp

lemma np_add_not_NInf: "a \<noteq> NInf \<Longrightarrow> b \<noteq> NInf \<Longrightarrow> np_add a b \<noteq> NInf"
  by (cases a; cases b) auto

lemma np_add_nonfinite:
  "a \<noteq> NInf \<Longrightarrow> b \<noteq> NInf \<Longrightarrow> \<not> is_finite a \<or> \<not> is_finite b \<Longrightarrow> \<not> is_finite (np_add a b)"
  by (cases a; cases b) auto

lemma foldl_np_add_not_NInf:
  "acc \<noteq> NInf \<Longrightarrow> \<forall>x\<in>set xs. x \<noteq> NInf \<Longrightarrow> foldl np_add acc xs \<noteq> NInf"
  by (induction xs arbitrary: acc) (auto simp: np_add_not_NInf)

lemma foldl_np_add_nonfinite:
  "acc \<noteq> NInf \<Longrightarrow> \<forall>x\<in>set xs. x \<noteq> NInf
     \<Longrightarrow> \<not> is_finite acc \<or> (\<exists>x\<in>set xs. \<not> is_finite x)
     \<Longrightarrow> \<not> is_finite (foldl np_add acc xs)"
proof (induction xs arbitrary: acc)
  case Nil
  then show ?case by simp
next
  case (Cons x xs)
  have 1: "np_add acc x \<noteq> NInf" using Cons.prems by (simp add: np_add_not_NInf)
  show ?case
  proof (cases "\<not> is_finite acc \<or> \<not> is_finite x")
    case True
    then have "\<not> is_finite (np_add acc x)"
      using Cons.prems by (intro np_add_nonfinite) auto
    with Cons.IH[OF 1] Cons.prems show ?thesis by simp
  next
    case False
    with Cons.prems have "\<exists>y\<in>set xs. \<not> is_finite y" by auto
    with Cons.IH[OF 1] Cons.prems show ?thesis by simp
  qed
qed

lemma mean_nonfinite:
  assumes "\<forall>x\<in>set xs. x \<noteq> NInf" and "xs = [] \<or> (\<exists>x\<in>set xs. \<not> is_finite x)"
  shows "\<not> is_finite (np_mul (np_mean xs) (Fin 100))"
proof (cases "xs = []")
  case True
  then show ?thesis by (simp add: np_mean_def np_sum_def)
next
  case False
  with assms(2) have ex: "\<not> is_finite (Fin 0) \<or> (\<exists>x\<in>set xs. \<not> is_finite x)" by simp
  have nf: "\<not> is_finite (np_sum xs)"
    unfolding np_sum_def by (rule foldl_np_add_nonfinite[OF _ assms(1) ex]) simp
  have nn: "np_sum xs \<noteq> NInf"
    unfolding np_sum_def by (rule foldl_np_add_not_NInf[OF _ assms(1)]) simp
  from nf nn show ?thesis
    by (cases "np_sum xs") (auto simp: np_mean_def)
qed

lemma map2_sub_Fin: "map2 np_sub (map Fin ts) (map Fin ps) = map Fin (map2 (-) ts ps)"
proof (induction ts arbitrary: ps)
  case Nil
  then show ?case by simp
next
  case (Cons t ts)
  then show ?case by (cases ps) auto
qed

lemma quotient_has_nonfinite:
  assumes "length dv = length ts" "0 \<in> set ts"
  shows "\<exists>x\<in>set (map2 np_div (map Fin dv) (map Fin ts)). \<not> is_finite x"
proof -
  from assms(2) obtain i where i: "i < length ts" "ts ! i = 0"
    by (auto simp: in_set_conv_nth)
  let ?q = "map2 np_div (map Fin dv) (map Fin ts)"
  have "?q ! i = np_div (Fin (dv ! i)) (Fin 0)" using i assms(1) by simp
  moreover have "i < length ?q" using i assms(1) by simp
  ultimately have "?q ! i \<in> set ?q" "\<not> is_finite (?q ! i)"
    using nth_mem[of i ?q] np_div_by_zero[of "dv ! i"] by simp_all
  then show ?thesis by blast
qed

lemma np_mape_zero:
  assumes "np_mape (map Fin ts) (map Fin ps) = Inr v" and "0 \<in> set ts"
  shows "\<not> is_finite v"
proof -
  consider (eq) "length ts = length ps"
    | (l) "length ts \<noteq> length ps" "length ts = 1"
    | (r) "length ts \<noteq> length ps" "length ts \<noteq> 1" "length ps = 1"
    | (bad) "length ts \<noteq> length ps" "length ts \<noteq> 1" "length ps \<noteq> 1"
    by blast
  then show ?thesis
  proof cases
    case eq
    let ?q = "map2 np_div (map Fin (map2 (-) ts ps)) (map Fin ts)"
    have v: "v = np_mul (np_mean (map np_abs ?q)) (Fin 100)"
      using assms(1) eq by (simp add: np_mape_def np_binop_def map2_sub_Fin)
    have "\<exists>x\<in>set ?q. \<not> is_finite x"
      using eq assms(2) by (intro quotient_has_nonfinite) auto
    then have "\<exists>x\<in>set (map np_abs ?q). \<not> is_finite x" by auto
    then show ?thesis unfolding v by (intro mean_nonfinite) auto
  next
    case l
    then obtain t where t: "ts = [t]" by (cases ts) auto
    with assms(2) have t0: "ts = [0]" by simp
    let ?q = "map (\<lambda>x. np_div x (Fin 0)) (map (np_sub (Fin 0)) (map Fin ps))"
    have v: "v = np_mul (np_mean (map np_abs ?q)) (Fin 100)"
      using assms(1) l t0 by (simp add: np_mape_def np_binop_def)
    have "ps = [] \<or> (\<exists>x\<in>set (map np_abs ?q). \<not> is_finite x)"
      by (cases ps) (auto simp del: np_div.simps)
    then have "map np_abs ?q = [] \<or> (\<exists>x\<in>set (map np_abs ?q). \<not> is_finite x)" by auto
    then show ?thesis unfolding v by (intro mean_nonfinite) auto
  next
    case r
    then obtain p where p: "ps = [p]" by (cases ps) auto
    let ?q = "map2 np_div (map Fin (map (\<lambda>x. x - p) ts)) (map Fin ts)"
    have v: "v = np_mul (np_mean (map np_abs ?q)) (Fin 100)"
      using assms(1) r p by (simp add: np_mape_def np_binop_def comp_def)
    have "\<exists>x\<in>set ?q. \<not> is_finite x"
      using assms(2) by (intro quotient_has_nonfinite) auto
    then have "\<exists>x\<in>set (map np_abs ?q). \<not> is_finite x" by auto
    then show ?thesis unfolding v by (intro mean_nonfinite) auto
  next
    case bad
    then show ?thesis using assms(1) by (simp add: np_mape_def np_binop_def)
  qed
qed

lemma zero_day_daily:
  "daily_sales zero_day_table = [(18262, 1), (18263, 1), (18264, 0), (18265, 2)]"
  by (simp add: daily_sales_def groupby_sum_def zero_day_table_def sale_def fsum_def fadd_def
      fl_numeral)

lemma zero_day_state:
  "zero_day_forecaster =
     \<lparr>model = Some [(18262, 1), (18263, 1)],
      df_train = Some [(18262, 1), (18263, 1)],
      df_test = Some [(18264, 0), (18265, 2)]\<rparr>"
  by (simp add: zero_day_forecaster_def SalesForecaster_train_model_def prepare_data_def
      zero_day_daily SalesForecaster_init_def py_slice_to_def py_slice_from_def Let_def
      naive_prophet_def)

lemma zero_day_evaluation:
  "evaluate_model naive_prophet formula_sklearn zero_day_forecaster
     = Inr \<lparr>MAE = Fin 1, RMSE = Fin 1, MAPE = PInf, R2 = Fin 0\<rparr>"
  by (simp add: zero_day_state evaluate_model_def naive_prophet_def formula_sklearn_def
      checked_metric_def py_slice_from_def np_mape_def np_binop_def np_mean_def np_sum_def
      np_sub_def Let_def)

text \<open>
  C3 as stated fails: with a held-out day whose true total is zero, \<open>evaluate_model\<close>
  returns metrics whose MAPE is infinite.
\<close>

theorem mape_zero_counterexample:
  "evaluate_model naive_prophet formula_sklearn zero_day_forecaster
     = Inr \<lparr>MAE = Fin 1, RMSE = Fin 1, MAPE = PInf, R2 = Fin 0\<rparr>"
  by (rule zero_day_evaluation)

text \<open>
  C3, amended.  The MAPE computation has no special case: whenever \<open>evaluate_model\<close>
  returns metrics and some held-out true value is zero, the returned MAPE is not a
  finite number (it is infinite or NaN).
\<close>

theorem mape_unguarded:
  assumes "evaluate_model P S f = Inr m"
    and "df_test f = Some test"
    and "0 \<in> snd ` set test"
  shows "\<not> is_finite (MAPE m)"
proof -
  have "\<exists>fc :: frow list. np_mape (map (\<lambda>r. Fin (snd r)) test) (map (\<lambda>r. Fin (yhat r)) fc)
          = Inr (MAPE m)"
    using assms(1,2) unfolding evaluate_model_def Let_def
    by (auto split: option.splits sum.splits)
  then obtain fc :: "frow list" where
    "np_mape (map (\<lambda>r. Fin (snd r)) test) (map (\<lambda>r. Fin (yhat r)) fc) = Inr (MAPE m)"
    by blast
  then have "np_mape (map Fin (map snd test)) (map Fin (map yhat fc)) = Inr (MAPE m)"
    by (simp add: comp_def)
  moreover have "0 \<in> set (map snd test)" using assms(3) by simp
  ultimately show ?thesis by (rule np_mape_zero)
qed

theorem mape_unguarded_witness:
  "evaluate_model naive_prophet formula_sklearn zero_day_forecaster
     = Inr \<lparr>MAE = Fin 1, RMSE = Fin 1, MAPE = PInf, R2 = Fin 0\<rparr>
   \<and> df_test zero_day_forecaster = Some [(18264, 0), (18265, 2)]
   \<and> \<not> is_finite (MAPE \<lparr>MAE = Fin 1, RMSE = Fin 1, MAPE = PInf, R2 = Fin 0\<rparr>)"
proof -
  have e: "evaluate_model naive_prophet formula_sklearn zero_day_forecaster
     = Inr \<lparr>MAE = Fin 1, RMSE = Fin 1, MAPE = PInf, R2 = Fin 0\<rparr>"
    by (rule zero_day_evaluation)
  have t: "df_test zero_day_forecaster = Some [(18264, 0), (18265, 2)]"
    by (simp add: zero_day_state)
  have z: "(0::real) \<in> snd ` set [(18264::int, 0), (18265, 2)]" by simp
  from mape_unguarded[OF e t z] e t show ?thesis by simp
qed

text \<open>The same holds for the metrics block of \<open>generate_forecast\<close>.\<close>

lemma historical_mape_unguarded:
  assumes "historical_metrics hist daily = Inr (a, b)" and "hist \<noteq> []" and "0 \<in> set daily"
  shows "\<not> is_finite b"
proof -
  from assms have "np_mape (map Fin daily) (map Fin hist) = Inr b"
    by (auto simp: historical_metrics_def split: sum.splits if_splits)
  then show ?thesis using assms(3) by (rule np_mape_zero)
qed

subsection \<open>Generated transactions\<close>

lemma py_int_nonneg: "0 \<le> x \<Longrightarrow> 0 \<le> py_int x"
  by (simp add: py_int_def)

lemma make_transaction_shape:
  "\<exists>a m q k. 100 \<le> a \<and> 7/10 \<le> m \<and> (reg \<noteq> ''Afar'' \<longrightarrow> 1 \<le> m) \<and> 1 \<le> q \<and> 1 \<le> k
     \<and> total_sales (make_transaction tid s d reg product segment x) = round2 (a * m)
     \<and> quantity (make_transaction tid s d reg product segment x) = q * k
     \<and> unit_price (make_transaction tid s d reg product segment x) = round2 (a * m / real_of_int (q * k))
     \<and> region (make_transaction tid s d reg product segment x) = reg"
proof -
  define b where "b = (case base_amounts product of Some b \<Rightarrow> b | None \<Rightarrow> 5000)"
  define a where "a = max 100 (add_seasonality (add_trend b (d - s)) d * x)"
  define q where "q = max 1 (py_int (a / (b / 10)))"
  define rm :: real where "rm = (if reg = ''Addis Ababa'' then 1.3 else if reg = ''Oromia'' then 1.1
                         else if reg = ''Afar'' then 0.7 else 1)"
  define sm :: real where "sm = (if segment = ''Wholesale'' then 1.5 else if segment = ''Export'' then 2 else 1)"
  define k :: int where "k = (if segment = ''Wholesale'' then 2 else if segment = ''Export'' then 3 else 1)"
  have mt: "make_transaction tid s d reg product segment x =
     \<lparr>transaction_id = tid, date = d, region = reg, product_category = product,
          customer_segment = segment, quantity = q * k,
          unit_price = round2 (a * (rm * sm) / real_of_int (q * k)),
          total_sales = round2 (a * (rm * sm)), currency = ''ETB''\<rparr>"
    unfolding make_transaction_def Let_def b_def[symmetric] a_def[symmetric] q_def[symmetric]
    by (simp add: rm_def sm_def k_def mult_ac)
  have "100 \<le> a" by (simp add: a_def)
  moreover have "7/10 \<le> rm * sm" by (simp add: rm_def sm_def)
  moreover have "reg \<noteq> ''Afar'' \<longrightarrow> 1 \<le> rm * sm" by (simp add: rm_def sm_def)
  moreover have "1 \<le> q" by (simp add: q_def)
  moreover have "1 \<le> k" by (simp add: k_def)
  ultimately show ?thesis unfolding mt by (intro exI[of _ a] exI[of _ "rm * sm"] exI[of _ q] exI[of _ k]) simp
qed

lemma make_transaction_floor:
  "70 \<le> total_sales (make_transaction tid s d reg product segment x)"
  "reg \<noteq> ''Afar'' \<Longrightarrow> 100 \<le> total_sales (make_transaction tid s d reg product segment x)"
proof -
  obtain a m q k where h: "100 \<le> a" "7/10 \<le> m" "reg \<noteq> ''Afar'' \<longrightarrow> 1 \<le> m"
     "total_sales (make_transaction tid s d reg product segment x) = round2 (a * m)"
    using make_transaction_shape[where reg = reg and tid = tid and s = s and d = d and product = product and segment = segment and x = x] by blast
  have "100 * (7/10) \<le> a * m" using h(1,2) by (intro mult_mono) auto
  then have "of_int 7000 / 100 \<le> a * m" by simp
  then have "of_int 7000 / 100 \<le> round2 (a * m)" by (rule round2_ge)
  then show "70 \<le> total_sales (make_transaction tid s d reg product segment x)"
    using h(4) by simp
  assume "reg \<noteq> ''Afar''"
  with h(3) have "1 \<le> m" by simp
  then have "100 * 1 \<le> a * m" using h(1) by (intro mult_mono) auto
  then have "of_int 10000 / 100 \<le> a * m" by simp
  then have "of_int 10000 / 100 \<le> round2 (a * m)" by (rule round2_ge)
  then show "100 \<le> total_sales (make_transaction tid s d reg product segment x)"
    using h(4) by simp
qed

lemma make_transaction_consistency:
  fixes tid s d reg product segment x
  defines "r \<equiv> make_transaction tid s d reg product segment x"
  shows "1 \<le> quantity r"
    and "\<bar>total_sales r - real_of_int (quantity r) * unit_price r\<bar> \<le> (real_of_int (quantity r) + 1) / 200"
    and "round2 (real_of_int (quantity r) * unit_price r) = real_of_int (quantity r) * unit_price r"
proof -
  obtain a m q k where h: "1 \<le> q" "1 \<le> k"
     "total_sales r = round2 (a * m)" "quantity r = q * k"
     "unit_price r = round2 (a * m / real_of_int (q * k))"
    unfolding r_def using make_transaction_shape[where reg = reg and tid = tid and s = s and d = d and product = product and segment = segment and x = x] by blast
  have qk: "1 \<le> q * k" using h(1,2) by (metis mult_mono mult_1 zero_le_one order_trans)
  then show "1 \<le> quantity r" using h(4) by simp
  define Q where "Q = real_of_int (q * k)"
  define A where "A = a * m"
  have "0 < q * k" using qk by linarith
  then have Qpos: "0 < Q" unfolding Q_def by (simp only: of_int_0_less_iff)
  have e1: "\<bar>round2 A - A\<bar> \<le> 1/200" by (rule round2_err)
  have e2: "\<bar>round2 (A / Q) - A / Q\<bar> \<le> 1/200" by (rule round2_err)
  have "Q * round2 (A / Q) - A = Q * (round2 (A / Q) - A / Q)"
    using Qpos by (simp add: right_diff_distrib)
  then have "\<bar>Q * round2 (A / Q) - A\<bar> = Q * \<bar>round2 (A / Q) - A / Q\<bar>"
    using Qpos by (simp add: abs_mult)
  also have "\<dots> \<le> Q * (1/200)" using e2 Qpos by (intro mult_left_mono) auto
  finally have e3: "\<bar>Q * round2 (A / Q) - A\<bar> \<le> Q / 200" by simp
  define U where "U = Q * round2 (A / Q)"
  define T where "T = round2 A"
  have "\<bar>T - A\<bar> \<le> 1/200" "\<bar>U - A\<bar> \<le> Q / 200"
    using e1 e3 by (simp_all add: U_def T_def)
  then have "\<bar>T - U\<bar> \<le> (Q + 1) / 200" by argo
  then have "\<bar>round2 A - Q * round2 (A / Q)\<bar> \<le> (Q + 1) / 200"
    by (simp add: U_def T_def)
  then show "\<bar>total_sales r - real_of_int (quantity r) * unit_price r\<bar> \<le> (real_of_int (quantity r) + 1) / 200"
    using h(3,4,5) unfolding Q_def A_def by simp
  have "unit_price r = of_int (round_half_even (A / Q * 100)) / 100"
    using h(5) unfolding Q_def A_def by (simp add: round2_def)
  then have "real_of_int (quantity r) * unit_price r
      = of_int (q * k * round_half_even (A / Q * 100)) / 100"
    using h(4) by simp
  then show "round2 (real_of_int (quantity r) * unit_price r) = real_of_int (quantity r) * unit_price r"
    using round2_cents by metis
qed

lemma gen_transactions_rows:
  "gen_transactions L G d n tid g = (rs, tid', g') \<Longrightarrow> row \<in> set rs
     \<Longrightarrow> \<exists>t r p sg x. row = make_transaction t (start_date G) d r p sg x"
proof (induction n arbitrary: tid g rs tid' g')
  case 0
  then show ?case by simp
next
  case (Suc n)
  then show ?case
    by (auto simp: Let_def split: prod.splits) blast+
qed

lemma gen_days_rows:
  "gen_days L G days tid g = (rs, tid', g') \<Longrightarrow> row \<in> set rs
     \<Longrightarrow> \<exists>t d r p sg x. row = make_transaction t (start_date G) d r p sg x"
proof (induction days arbitrary: tid g rs tid' g')
  case Nil
  then show ?case by simp
next
  case (Cons d days)
  then show ?case
    by (auto simp: Let_def split: prod.splits) (blast dest: gen_transactions_rows)+
qed

lemma generate_sales_data_rows:
  "row \<in> set (fst (generate_sales_data L G g))
     \<Longrightarrow> \<exists>t d r p sg x. row = make_transaction t (start_date G) d r p sg x"
  unfolding generate_sales_data_def
  by (auto simp: Let_def split: prod.splits dest: gen_days_rows)

lemma civil_june_day: "civil 18414 = (2020, 6, 1)"
  by code_simp

lemma june_attrs: "month_of 18414 = 6" "day_of 18414 = 1" "dayofweek 18414 = 0"
  by (simp_all add: month_of_def day_of_def dayofweek_def civil_june_day)

lemma add_seasonality_june: "add_seasonality v 18414 = v"
  by (simp add: add_seasonality_def june_attrs Let_def)

lemma afar_row:
  "make_transaction t 18414 18414 ''Afar'' ''Injera'' ''Retail'' (1/20)
     = june_row t ''Afar'' ''Injera'' ''Retail'' 1 70 70"
  by (simp add: make_transaction_def add_trend_def add_seasonality_june Let_def py_int_def
      round2_def round_half_even_def june_row_def)

lemma coffee_row:
  "make_transaction t 18414 18414 ''Addis Ababa'' ''Coffee'' ''Retail'' 1
     = june_row t ''Addis Ababa'' ''Coffee'' ''Retail'' 10 650 6500"
  by (simp add: make_transaction_def add_trend_def add_seasonality_june Let_def py_int_def
      round2_def round_half_even_def june_row_def)

lemma export_row:
  "make_transaction t 18414 18414 ''Amhara'' ''Injera'' ''Export'' (10001235/10000000)
     = june_row t ''Amhara'' ''Injera'' ''Export'' 30 66.67 2000.25"
  by (simp add: make_transaction_def add_trend_def add_seasonality_june Let_def py_int_def
      round2_def round_half_even_def june_row_def)

lemma init_june:
  "EthiopiaSalesDataGenerator_init L 18414 18414 42 g
     = (Inr june_generator, \<lparr>py_rng = py_seed L 42, np_rng = np_seed L 42\<rparr>)"
  by (simp add: EthiopiaSalesDataGenerator_init_def june_generator_def)

lemma choice_scripted:
  "choice (scripted_rng a b) xs (k # s) = (xs ! (k mod length xs), s)"
  "choice (scripted_rng a b) xs [] = (xs ! 0, [])"
  by (simp_all add: choice_def randbelow_def scripted_rng_def pop_below_def)

lemma randint_scripted:
  "randint (scripted_rng a b) 5 20 (k # s) = (5 + int (k mod 16), s)"
  "randint (scripted_rng a b) 5 20 [] = (5, [])"
  by (simp_all add: randint_def randbelow_def scripted_rng_def pop_below_def)

lemma normal_scripted:
  "np_normal (scripted_rng a b) loc sc (x # s) = (x, s)"
  "np_normal (scripted_rng a b) loc sc [] = (loc, [])"
  by (simp_all add: scripted_rng_def pop_normal_def)

lemma june_fields:
  "start_date june_generator = 18414" "end_date june_generator = 18414"
  "regions june_generator ! 6 = ''Afar''" "regions june_generator ! 0 = ''Addis Ababa''"
  "regions june_generator ! 2 = ''Amhara''"
  "product_categories june_generator ! 7 = ''Injera''"
  "product_categories june_generator ! 0 = ''Coffee''"
  "customer_segments june_generator ! 0 = ''Retail''"
  "customer_segments june_generator ! 2 = ''Export''"
  "length (regions june_generator) = 8" "length (product_categories june_generator) = 10"
  "length (customer_segments june_generator) = 5"
  by (simp_all add: june_generator_def)

lemma coffee_rows:
  "gen_transactions (scripted_rng a b) june_generator 18414 4 t \<lparr>py_rng = [], np_rng = []\<rparr>
   = ([june_row t ''Addis Ababa'' ''Coffee'' ''Retail'' 10 650 6500,
       june_row (t + 1) ''Addis Ababa'' ''Coffee'' ''Retail'' 10 650 6500,
       june_row (t + 2) ''Addis Ababa'' ''Coffee'' ''Retail'' 10 650 6500,
       june_row (t + 3) ''Addis Ababa'' ''Coffee'' ''Retail'' 10 650 6500],
      t + 4, \<lparr>py_rng = [], np_rng = []\<rparr>)"
proof -
  have n: "(4::nat) = Suc (Suc (Suc (Suc 0)))" by simp
  show ?thesis unfolding n
    by (simp add: choice_scripted normal_scripted june_fields coffee_row add.commute)
qed

lemma five_transactions:
  assumes "make_transaction 1000 18414 18414 (regions june_generator ! i)
             (product_categories june_generator ! j) (customer_segments june_generator ! k) x = r"
    and "i < 8" "j < 10" "k < 5"
  shows "generate_sales_data (scripted_rng [0, i, j, k] [x]) june_generator
      \<lparr>py_rng = [0, i, j, k], np_rng = [x]\<rparr>
   = ([r,
       june_row 1001 ''Addis Ababa'' ''Coffee'' ''Retail'' 10 650 6500,
       june_row 1002 ''Addis Ababa'' ''Coffee'' ''Retail'' 10 650 6500,
       june_row 1003 ''Addis Ababa'' ''Coffee'' ''Retail'' 10 650 6500,
       june_row 1004 ''Addis Ababa'' ''Coffee'' ''Retail'' 10 650 6500],
      \<lparr>py_rng = [], np_rng = []\<rparr>)"
proof -
  have d: "generate_date_range june_generator = [18414]"
    by (simp add: generate_date_range_def june_fields upto.simps)
  have n: "(5::nat) = Suc 4" by simp
  have g: "gen_transactions (scripted_rng [0, i, j, k] [x]) june_generator 18414 5 1000
             \<lparr>py_rng = [i, j, k], np_rng = [x]\<rparr>
      = ([r,
       june_row 1001 ''Addis Ababa'' ''Coffee'' ''Retail'' 10 650 6500,
       june_row 1002 ''Addis Ababa'' ''Coffee'' ''Retail'' 10 650 6500,
       june_row 1003 ''Addis Ababa'' ''Coffee'' ''Retail'' 10 650 6500,
       june_row 1004 ''Addis Ababa'' ''Coffee'' ''Retail'' 10 650 6500],
      1005, \<lparr>py_rng = [], np_rng = []\<rparr>)"
    using assms
    by (subst n, subst gen_transactions.simps(2))
       (simp add: choice_scripted normal_scripted june_fields
        coffee_rows[where t = 1001, simplified])
  show ?thesis
    unfolding generate_sales_data_def d
    by (simp add: randint_scripted g)
qed

lemma floor_table:
  "generate_sales_data (scripted_rng [0, 6, 7, 0] [1/20]) june_generator
      \<lparr>py_rng = [0, 6, 7, 0], np_rng = [1/20]\<rparr>
   = ([june_row 1000 ''Afar'' ''Injera'' ''Retail'' 1 70 70,
       june_row 1001 ''Addis Ababa'' ''Coffee'' ''Retail'' 10 650 6500,
       june_row 1002 ''Addis Ababa'' ''Coffee'' ''Retail'' 10 650 6500,
       june_row 1003 ''Addis Ababa'' ''Coffee'' ''Retail'' 10 650 6500,
       june_row 1004 ''Addis Ababa'' ''Coffee'' ''Retail'' 10 650 6500],
      \<lparr>py_rng = [], np_rng = []\<rparr>)"
proof (rule five_transactions)
  show "make_transaction 1000 18414 18414 (regions june_generator ! 6)
          (product_categories june_generator ! 7) (customer_segments june_generator ! 0) (1/20)
        = june_row 1000 ''Afar'' ''Injera'' ''Retail'' 1 70 70"
    by (simp only: june_fields afar_row)
qed simp_all

lemma export_table:
  "generate_sales_data (scripted_rng [0, 2, 7, 2] [10001235/10000000]) june_generator
      \<lparr>py_rng = [0, 2, 7, 2], np_rng = [10001235/10000000]\<rparr>
   = ([june_row 1000 ''Amhara'' ''Injera'' ''Export'' 30 66.67 2000.25,
       june_row 1001 ''Addis Ababa'' ''Coffee'' ''Retail'' 10 650 6500,
       june_row 1002 ''Addis Ababa'' ''Coffee'' ''Retail'' 10 650 6500,
       june_row 1003 ''Addis Ababa'' ''Coffee'' ''Retail'' 10 650 6500,
       june_row 1004 ''Addis Ababa'' ''Coffee'' ''Retail'' 10 650 6500],
      \<lparr>py_rng = [], np_rng = []\<rparr>)"
proof (rule five_transactions)
  show "make_transaction 1000 18414 18414 (regions june_generator ! 2)
          (product_categories june_generator ! 7) (customer_segments june_generator ! 2)
          (10001235/10000000)
        = june_row 1000 ''Amhara'' ''Injera'' ''Export'' 30 66.67 2000.25"
    by (simp only: june_fields export_row)
qed simp_all

lemma run_june:
  "run_generator (scripted_rng a b) 18414 18414 42 g
     = Inr (fst (generate_sales_data (scripted_rng a b) june_generator \<lparr>py_rng = a, np_rng = b\<rparr>))"
  by (simp add: run_generator_def init_june scripted_rng_def)

text \<open>
  C4 as stated fails: in a run whose first transaction draws region Afar, product
  Injera, segment Retail and the noise factor 0.05, the amount is floored at 100 and
  then multiplied by 0.7, and the recorded \<open>total_sales\<close> is 70.
\<close>

theorem floor_counterexample:
  "run_generator (scripted_rng [0, 6, 7, 0] [1/20]) 18414 18414 42 \<lparr>py_rng = [], np_rng = []\<rparr>
     = Inr [june_row 1000 ''Afar'' ''Injera'' ''Retail'' 1 70 70,
            june_row 1001 ''Addis Ababa'' ''Coffee'' ''Retail'' 10 650 6500,
            june_row 1002 ''Addis Ababa'' ''Coffee'' ''Retail'' 10 650 6500,
            june_row 1003 ''Addis Ababa'' ''Coffee'' ''Retail'' 10 650 6500,
            june_row 1004 ''Addis Ababa'' ''Coffee'' ''Retail'' 10 650 6500]"
  by (simp add: run_june floor_table)

text \<open>
  C4, amended.  The amount is floored at 100 after the noise step; the region and
  segment multipliers are applied after the floor, so every generated transaction has
  \<open>total_sales\<close> of at least 70 (100 times the Afar multiplier 0.7), and of at least
  100 when its region is not Afar.
\<close>

theorem total_sales_floor:
  assumes "row \<in> set (fst (generate_sales_data L G g))"
  shows "70 \<le> total_sales row \<and> (region row \<noteq> ''Afar'' \<longrightarrow> 100 \<le> total_sales row)"
proof -
  from generate_sales_data_rows[OF assms] obtain t d r p sg x
    where row: "row = make_transaction t (start_date G) d r p sg x" by blast
  have "region row = r" unfolding row using make_transaction_shape[where reg = r and tid = t and s = "start_date G" and d = d and product = p and segment = sg and x = x] by auto
  then show ?thesis unfolding row using make_transaction_floor[where reg = r and tid = t and s = "start_date G" and d = d and product = p and segment = sg and x = x] by auto
qed

theorem total_sales_floor_witness:
  "june_row 1000 ''Afar'' ''Injera'' ''Retail'' 1 70 70
     \<in> set (fst (generate_sales_data (scripted_rng [0, 6, 7, 0] [1/20]) june_generator
        \<lparr>py_rng = [0, 6, 7, 0], np_rng = [1/20]\<rparr>))
   \<and> 70 \<le> total_sales (june_row 1000 ''Afar'' ''Injera'' ''Retail'' 1 70 70)
   \<and> june_row 1001 ''Addis Ababa'' ''Coffee'' ''Retail'' 10 650 6500
     \<in> set (fst (generate_sales_data (scripted_rng [0, 6, 7, 0] [1/20]) june_generator
        \<lparr>py_rng = [0, 6, 7, 0], np_rng = [1/20]\<rparr>))
   \<and> region (june_row 1001 ''Addis Ababa'' ''Coffee'' ''Retail'' 10 650 6500) \<noteq> ''Afar''
   \<and> 100 \<le> total_sales (june_row 1001 ''Addis Ababa'' ''Coffee'' ''Retail'' 10 650 6500)"
proof -
  have a: "june_row 1000 ''Afar'' ''Injera'' ''Retail'' 1 70 70
     \<in> set (fst (generate_sales_data (scripted_rng [0, 6, 7, 0] [1/20]) june_generator
        \<lparr>py_rng = [0, 6, 7, 0], np_rng = [1/20]\<rparr>))"
    by (simp add: floor_table)
  have b: "june_row 1001 ''Addis Ababa'' ''Coffee'' ''Retail'' 10 650 6500
     \<in> set (fst (generate_sales_data (scripted_rng [0, 6, 7, 0] [1/20]) june_generator
        \<lparr>py_rng = [0, 6, 7, 0], np_rng = [1/20]\<rparr>))"
    by (simp add: floor_table)
  have c: "region (june_row 1001 ''Addis Ababa'' ''Coffee'' ''Retail'' 10 650 6500) \<noteq> ''Afar''"
    by (simp add: june_row_def)
  from total_sales_floor[OF a] total_sales_floor[OF b] a b c show ?thesis by blast
qed

text \<open>
  C6 as stated fails: in a run whose first transaction draws region Amhara, product
  Injera, segment Export and the noise factor 1.0001235, the recorded quantity is 30,
  the unit price 66.67 and \<open>total_sales\<close> 2000.25, while
  \<open>round(quantity * unit_price, 2)\<close> is 2000.10: fifteen cents apart.
\<close>

theorem consistency_counterexample:
  "run_generator (scripted_rng [0, 2, 7, 2] [10001235/10000000]) 18414 18414 42
       \<lparr>py_rng = [], np_rng = []\<rparr>
     = Inr [june_row 1000 ''Amhara'' ''Injera'' ''Export'' 30 66.67 2000.25,
            june_row 1001 ''Addis Ababa'' ''Coffee'' ''Retail'' 10 650 6500,
            june_row 1002 ''Addis Ababa'' ''Coffee'' ''Retail'' 10 650 6500,
            june_row 1003 ''Addis Ababa'' ''Coffee'' ''Retail'' 10 650 6500,
            june_row 1004 ''Addis Ababa'' ''Coffee'' ''Retail'' 10 650 6500]
   \<and> round2 (real_of_int 30 * 66.67) = 2000.1"
proof -
  have "round2 (real_of_int 30 * 66.67) = 2000.1"
    by (simp add: round2_def round_half_even_def Let_def)
  then show ?thesis unfolding run_june export_table by simp
qed

text \<open>
  C6, amended.  Every generated transaction has \<open>quantity >= 1\<close>, and its
  \<open>total_sales\<close> differs from \<open>round(quantity * unit_price, 2)\<close> by at most
  \<open>0.005 * (quantity + 1)\<close>: half a cent from rounding the total, and half a cent from
  rounding the unit price, the latter multiplied by the quantity.
\<close>

theorem quantity_price_consistency:
  assumes "row \<in> set (fst (generate_sales_data L G g))"
  shows "1 \<le> quantity row
     \<and> \<bar>total_sales row - round2 (real_of_int (quantity row) * unit_price row)\<bar>
          \<le> (real_of_int (quantity row) + 1) / 200"
proof -
  from generate_sales_data_rows[OF assms] obtain t d r p sg x
    where row: "row = make_transaction t (start_date G) d r p sg x" by blast
  show ?thesis unfolding row
    using make_transaction_consistency[where reg = r and tid = t and s = "start_date G" and d = d and product = p and segment = sg and x = x] by simp
qed

theorem quantity_price_consistency_witness:
  "june_row 1000 ''Amhara'' ''Injera'' ''Export'' 30 66.67 2000.25
     \<in> set (fst (generate_sales_data (scripted_rng [0, 2, 7, 2] [10001235/10000000]) june_generator
        \<lparr>py_rng = [0, 2, 7, 2], np_rng = [10001235/10000000]\<rparr>))
   \<and> 1 \<le> quantity (june_row 1000 ''Amhara'' ''Injera'' ''Export'' 30 66.67 2000.25)
   \<and> \<bar>total_sales (june_row 1000 ''Amhara'' ''Injera'' ''Export'' 30 66.67 2000.25)
        - round2 (real_of_int (quantity (june_row 1000 ''Amhara'' ''Injera'' ''Export'' 30 66.67 2000.25))
            * unit_price (june_row 1000 ''Amhara'' ''Injera'' ''Export'' 30 66.67 2000.25))\<bar>
       \<le> (real_of_int (quantity (june_row 1000 ''Amhara'' ''Injera'' ''Export'' 30 66.67 2000.25)) + 1) / 200"
proof -
  have a: "june_row 1000 ''Amhara'' ''Injera'' ''Export'' 30 66.67 2000.25
     \<in> set (fst (generate_sales_data (scripted_rng [0, 2, 7, 2] [10001235/10000000]) june_generator
        \<lparr>py_rng = [0, 2, 7, 2], np_rng = [10001235/10000000]\<rparr>))"
    unfolding export_table by simp
  from quantity_price_consistency[OF a] a show ?thesis by blast
qed

subsection \<open>Forecast bounds\<close>















subsection \<open>The insight engine\<close>

lemma foldl_np_add_Fin: "foldl np_add (Fin acc) (map Fin gs) = Fin (acc + sum_list gs)"
  by (induction gs arbitrary: acc) (simp_all add: add.assoc)

lemma np_sum_Fin: "np_sum (map Fin gs) = Fin (sum_list gs)"
  by (simp add: np_sum_def foldl_np_add_Fin)

lemma pd_mean_NaN_Fin:
  "pd_mean (NaN # map Fin gs) = (if gs = [] then NaN else Fin (sum_list gs / real (length gs)))"
proof -
  have "filter (\<lambda>x. x \<noteq> NaN) (NaN # map Fin gs) = map Fin gs"
    by (induction gs) simp_all
  then show ?thesis by (simp add: pd_mean_def np_mean_def np_sum_Fin)
qed

lemma pd_mean_Fin:
  "pd_mean (map Fin gs) = (if gs = [] then NaN else Fin (sum_list gs / real (length gs)))"
proof -
  have "filter (\<lambda>x. x \<noteq> NaN) (map Fin gs) = map Fin gs"
    by (induction gs) simp_all
  then show ?thesis by (simp add: pd_mean_def np_mean_def np_sum_Fin)
qed

text \<open>The growth rates of a positive, strictly increasing series are finite and positive.\<close>

lemma ratios_increasing:
  assumes "sorted_wrt (<) (v # vs)" and "\<forall>x\<in>set (v # vs). (0::real) < x"
  shows "\<exists>gs. length gs = length vs \<and> (\<forall>g\<in>set gs. 0 < g)
           \<and> map (\<lambda>g. np_mul g (Fin 100))
                 (map2 (\<lambda>prev cur. np_sub (np_div cur prev) (Fin 1)) (map Fin (v # vs)) (map Fin vs))
               = map Fin gs"
  using assms
proof (induction vs arbitrary: v)
  case Nil
  then show ?case by simp
next
  case (Cons w ws)
  from Cons.prems have vw: "v < w" "0 < v" "0 < w" by auto
  from Cons.prems have "sorted_wrt (<) (w # ws)" "\<forall>x\<in>set (w # ws). 0 < x" by auto
  from Cons.IH[OF this] obtain gs where gs: "length gs = length ws" "\<forall>g\<in>set gs. 0 < g"
    "map (\<lambda>g. np_mul g (Fin 100))
       (map2 (\<lambda>prev cur. np_sub (np_div cur prev) (Fin 1)) (map Fin (w # ws)) (map Fin ws))
     = map Fin gs" by blast
  have "0 < (w / v - 1) * 100" using vw by (simp add: field_simps)
  moreover have "np_mul (np_sub (np_div (Fin w) (Fin v)) (Fin 1)) (Fin 100) = Fin ((w / v - 1) * 100)"
    using vw by (simp add: np_sub_def)
  ultimately show ?case using gs
    by (intro exI[of _ "((w / v - 1) * 100) # gs"]) simp
qed

lemma growth_rates_increasing:
  assumes "sorted_wrt (<) (map snd (monthly_sales rs))"
    and "\<forall>p\<in>set (monthly_sales rs). 0 < snd p"
  shows "growth_rates rs = [] \<or>
         (\<exists>gs. (\<forall>g\<in>set gs. 0 < g) \<and> growth_rates rs = NaN # map Fin gs)"
proof (cases "monthly_sales rs")
  case Nil
  then show ?thesis by (simp add: growth_rates_def pct_change_def)
next
  case (Cons p ps)
  have s: "sorted_wrt (<) (snd p # map snd ps)" using assms(1) Cons by simp
  have pos: "\<forall>x\<in>set (snd p # map snd ps). 0 < x" using assms(2) Cons by auto
  from ratios_increasing[OF s pos] obtain gs where gs: "\<forall>g\<in>set gs. 0 < g"
    "map (\<lambda>g. np_mul g (Fin 100))
       (map2 (\<lambda>prev cur. np_sub (np_div cur prev) (Fin 1))
          (map Fin (snd p # map snd ps)) (map Fin (map snd ps)))
     = map Fin gs" by blast
  have "growth_rates rs = NaN # map Fin gs"
    using gs(2) by (simp add: growth_rates_def pct_change_def Cons comp_def)
  with gs(1) show ?thesis by blast
qed

lemma avg_growth_increasing:
  assumes "sorted_wrt (<) (map snd (monthly_sales rs))"
    and "\<forall>p\<in>set (monthly_sales rs). 0 < snd p"
  shows "avg_growth rs = NaN \<or> (\<exists>g. 0 < g \<and> avg_growth rs = Fin g)"
proof -
  from growth_rates_increasing[OF assms] consider "growth_rates rs = []"
    | gs where "\<forall>g\<in>set gs. 0 < g" "growth_rates rs = NaN # map Fin gs" by blast
  then show ?thesis
  proof cases
    case 1
    then show ?thesis by (simp add: avg_growth_def pd_mean_def np_mean_def np_sum_def)
  next
    case 2
    show ?thesis
    proof (cases "gs = []")
      case True
      then have "avg_growth rs = NaN"
        using 2(2) pd_mean_NaN_Fin[of "[]"] by (simp add: avg_growth_def)
      then show ?thesis by simp
    next
      case False
      then have "0 < sum_list gs" using 2(1) by (cases gs) (auto intro: add_pos_nonneg sum_list_nonneg less_imp_le)
      then have "0 < sum_list gs / real (length gs)" using False by simp
      then have "\<exists>g. 0 < g \<and> avg_growth rs = Fin g"
        using 2(2) False pd_mean_NaN_Fin[of gs] by (simp add: avg_growth_def)
      then show ?thesis by simp
    qed
  qed
qed

lemma trend_insights_no_decline:
  assumes "avg = NaN \<or> (\<exists>g. 0 < g \<and> avg = Fin g)"
  shows "\<forall>i\<in>set (trend_insights avg recent). title i \<noteq> ''Declining Sales Trend''"
  using assms by (auto simp: trend_insights_def np_lt_def)

lemma trend_insights_growth:
  assumes "np_gt avg (Fin 5)"
  shows "\<exists>i\<in>set (trend_insights avg recent). category i = ''Growth'' \<and> severity i = ''positive''"
  using assms by (simp add: trend_insights_def)

lemma title_suffix_neq:
  "x @ '' - Top Performer'' \<noteq> ''Declining Sales Trend''"
  "x @ '' - Underperforming'' \<noteq> ''Declining Sales Trend''"
  "x @ '' - Top Regional Market'' \<noteq> ''Declining Sales Trend''"
  "x @ '' - Growth Opportunity'' \<noteq> ''Declining Sales Trend''"
  "x @ '' - Primary Customer Base'' \<noteq> ''Declining Sales Trend''"
proof -
  have l: "\<And>ys zs :: string. ys \<noteq> [] \<Longrightarrow> last ys \<noteq> last zs \<Longrightarrow> x @ ys \<noteq> zs"
    by (metis last_appendR)
  show "x @ '' - Top Performer'' \<noteq> ''Declining Sales Trend''" by (rule l) simp_all
  show "x @ '' - Underperforming'' \<noteq> ''Declining Sales Trend''" by (rule l) simp_all
  show "x @ '' - Top Regional Market'' \<noteq> ''Declining Sales Trend''" by (rule l) simp_all
  show "x @ '' - Growth Opportunity'' \<noteq> ''Declining Sales Trend''" by (rule l) simp_all
  show "x @ '' - Primary Customer Base'' \<noteq> ''Declining Sales Trend''" by (rule l) simp_all
qed

lemma analyze_trends_effect:
  assumes "analyze_trends E s = (E', s')" and "sales_df E < length s"
  shows "sales_df E' = sales_df E"
    and "insights E' = insights E
           @ trend_insights (avg_growth (rows (s ! sales_df E))) (recent_growth (rows (s ! sales_df E)))"
    and "s' = s[sales_df E := (s ! sales_df E)\<lparr>date_coerced := True\<rparr>]"
  using assms by (auto simp: analyze_trends_def Let_def)

lemma analyze_seasonality_effect:
  assumes "analyze_seasonality E s = (E', s')"
  shows "sales_df E' = sales_df E"
    and "\<exists>new. insights E' = insights E @ new \<and> (\<forall>i\<in>set new. title i \<noteq> ''Declining Sales Trend'')"
    and "s' = s[sales_df E := (s ! sales_df E)
                 \<lparr>month_col := Some (map (\<lambda>r. month_of (date r)) (rows (s ! sales_df E)))\<rparr>]"
  using assms by (auto simp: analyze_seasonality_def Let_def)

lemma analyze_products_effect:
  assumes "analyze_products E s = Inr E'"
  shows "\<exists>new. insights E' = insights E @ new \<and> (\<forall>i\<in>set new. title i \<noteq> ''Declining Sales Trend'')"
  using assms by (auto simp: analyze_products_def Let_def title_suffix_neq split: if_splits)

lemma analyze_regions_effect:
  assumes "analyze_regions E s = Inr E'"
  shows "\<exists>new. insights E' = insights E @ new \<and> (\<forall>i\<in>set new. title i \<noteq> ''Declining Sales Trend'')"
  using assms by (auto simp: analyze_regions_def Let_def title_suffix_neq split: if_splits)

lemma analyze_customer_segments_effect:
  assumes "analyze_customer_segments E s = Inr E'"
  shows "\<exists>new. insights E' = insights E @ new \<and> (\<forall>i\<in>set new. title i \<noteq> ''Declining Sales Trend'')"
  using assms by (auto simp: analyze_customer_segments_def Let_def title_suffix_neq split: if_splits)

lemma analyze_forecast_effect:
  "\<exists>new. insights (analyze_forecast E s) = insights E @ new
         \<and> (\<forall>i\<in>set new. title i \<noteq> ''Declining Sales Trend'')"
  by (auto simp: analyze_forecast_def Let_def split: option.splits)

lemma extend_twice:
  assumes "\<exists>new. xs = ys @ new \<and> (\<forall>i\<in>set new. P i)"
    and "\<exists>new. zs = xs @ new \<and> (\<forall>i\<in>set new. P i)"
  shows "\<exists>new. zs = ys @ new \<and> (\<forall>i\<in>set new. P i)"
proof -
  from assms obtain n1 n2 where "xs = ys @ n1" "\<forall>i\<in>set n1. P i" "zs = xs @ n2" "\<forall>i\<in>set n2. P i"
    by blast
  then have "zs = ys @ (n1 @ n2) \<and> (\<forall>i\<in>set (n1 @ n2). P i)" by auto
  then show ?thesis by blast
qed

lemma generate_all_insights_effect:
  assumes run: "generate_all_insights E s = (res, E', s')" and b: "sales_df E < length s"
  shows "s' = (s[sales_df E := (s ! sales_df E)\<lparr>date_coerced := True\<rparr>])
               [sales_df E := (s ! sales_df E)\<lparr>date_coerced := True,
                   month_col := Some (map (\<lambda>r. month_of (date r)) (rows (s ! sales_df E)))\<rparr>]"
    and "\<exists>more. insights E' = insights E
             @ trend_insights (avg_growth (rows (s ! sales_df E))) (recent_growth (rows (s ! sales_df E)))
             @ more \<and> (\<forall>i\<in>set more. title i \<noteq> ''Declining Sales Trend'')"
proof -
  obtain E1 s1 where t: "analyze_trends E s = (E1, s1)" by (cases "analyze_trends E s")
  obtain E2 s2 where se: "analyze_seasonality E1 s1 = (E2, s2)" by (cases "analyze_seasonality E1 s1")
  note t1 = analyze_trends_effect[OF t b]
  note t2 = analyze_seasonality_effect[OF se]
  let ?T = "trend_insights (avg_growth (rows (s ! sales_df E))) (recent_growth (rows (s ! sales_df E)))"
  let ?P = "\<lambda>i. title i \<noteq> ''Declining Sales Trend''"
  have s2: "s2 = (s[sales_df E := (s ! sales_df E)\<lparr>date_coerced := True\<rparr>])
               [sales_df E := (s ! sales_df E)\<lparr>date_coerced := True,
                   month_col := Some (map (\<lambda>r. month_of (date r)) (rows (s ! sales_df E)))\<rparr>]"
    using t1 t2 b by simp
  have x2: "\<exists>new. insights E2 = (insights E @ ?T) @ new \<and> (\<forall>i\<in>set new. ?P i)"
    using t1(2) t2(2) by simp
  have r: "(res, E', s') =
     (case analyze_products E2 s2 of
           Inl e \<Rightarrow> (Inl e, E2, s2)
         | Inr E3 \<Rightarrow>
        (case analyze_regions E3 s2 of
           Inl e \<Rightarrow> (Inl e, E3, s2)
         | Inr E4 \<Rightarrow>
        (case analyze_customer_segments E4 s2 of
           Inl e \<Rightarrow> (Inl e, E4, s2)
         | Inr E5 \<Rightarrow>
             (let E6 = analyze_forecast E5 s2 in (Inr (insights E6), E6, s2)))))"
    using run t se by (simp add: generate_all_insights_def)
  have "s' = s2 \<and> (\<exists>new. insights E' = (insights E @ ?T) @ new \<and> (\<forall>i\<in>set new. ?P i))"
  proof (cases "analyze_products E2 s2")
    case (Inl e)
    then show ?thesis using r x2 by simp
  next
    case p: (Inr E3)
    have x3: "\<exists>new. insights E3 = (insights E @ ?T) @ new \<and> (\<forall>i\<in>set new. ?P i)"
      by (rule extend_twice[OF x2 analyze_products_effect[OF p]])
    show ?thesis
    proof (cases "analyze_regions E3 s2")
      case (Inl e)
      then show ?thesis using r p x3 by simp
    next
      case g: (Inr E4)
      have x4: "\<exists>new. insights E4 = (insights E @ ?T) @ new \<and> (\<forall>i\<in>set new. ?P i)"
        by (rule extend_twice[OF x3 analyze_regions_effect[OF g]])
      show ?thesis
      proof (cases "analyze_customer_segments E4 s2")
        case (Inl e)
        then show ?thesis using r p g x4 by simp
      next
        case c: (Inr E5)
        have x5: "\<exists>new. insights E5 = (insights E @ ?T) @ new \<and> (\<forall>i\<in>set new. ?P i)"
          by (rule extend_twice[OF x4 analyze_customer_segments_effect[OF c]])
        have x6: "\<exists>new. insights (analyze_forecast E5 s2) = (insights E @ ?T) @ new \<and> (\<forall>i\<in>set new. ?P i)"
          by (rule extend_twice[OF x5 analyze_forecast_effect])
        show ?thesis using r p g c x6 by (simp add: Let_def)
      qed
    qed
  qed
  then show "s' = (s[sales_df E := (s ! sales_df E)\<lparr>date_coerced := True\<rparr>])
               [sales_df E := (s ! sales_df E)\<lparr>date_coerced := True,
                   month_col := Some (map (\<lambda>r. month_of (date r)) (rows (s ! sales_df E)))\<rparr>]"
    and "\<exists>more. insights E' = insights E @ ?T @ more \<and> (\<forall>i\<in>set more. title i \<noteq> ''Declining Sales Trend'')"
    using s2 by simp_all
qed

lemma InsightEngine_init_effect:
  assumes "InsightEngine_init s a fdf = (E, s0)"
  shows "sales_df E = length s" "insights E = []" "s0 = s @ [s ! a]" "forecast_df E = fdf"
  using assms by (auto simp: InsightEngine_init_def alloc_def)

lemma periods: "to_period_M 18276 = 24240" "to_period_M 18307 = 24241" "to_period_M 18336 = 24242"
  by code_simp+

lemma months: "month_of 18276 = 1" "month_of 18307 = 2" "month_of 18336 = 3"
  by code_simp+

lemma three_months:
  assumes "fl x = x" "fl y = y" "fl z = z"
  shows "monthly_sales [sale 1 18276 x, sale 2 18307 y, sale 3 18336 z]
     = [(24240, x), (24241, y), (24242, z)]"
  using assms by (simp add: monthly_sales_def groupby_sum_def sale_def periods fsum_def fadd_def)

lemma slow_months: "monthly_sales slow_growth_table = [(24240, 100), (24241, 101), (24242, 102)]"
  unfolding slow_growth_table_def by (rule three_months) (simp_all add: fl_numeral)

lemma fast_months: "monthly_sales fast_growth_table = [(24240, 100), (24241, 120), (24242, 150)]"
  unfolding fast_growth_table_def by (rule three_months) (simp_all add: fl_numeral)

lemma slow_growth_rates: "growth_rates slow_growth_table = [NaN, Fin 1, Fin (100/101)]"
  by (simp add: growth_rates_def slow_months pct_change_def np_sub_def)

lemma slow_avg: "avg_growth slow_growth_table = Fin (201/202)"
  by (simp add: avg_growth_def slow_growth_rates pd_mean_def np_mean_def np_sum_def)

lemma slow_recent: "recent_growth slow_growth_table = Fin (201/202)"
  by (simp add: recent_growth_def slow_growth_rates py_slice_from_def pd_mean_def np_mean_def np_sum_def)

lemma slow_trend:
  "trend_insights (avg_growth slow_growth_table) (recent_growth slow_growth_table) = []"
  by (simp add: slow_avg slow_recent trend_insights_def np_lt_def)

lemma fast_avg: "avg_growth fast_growth_table = Fin (45/2)"
  by (simp add: avg_growth_def growth_rates_def fast_months pct_change_def
      np_sub_def pd_mean_def np_mean_def np_sum_def)

lemma sales_by_single:
  assumes "\<forall>r\<in>set rs. key r = k" "rs \<noteq> []"
  shows "sales_by key rs = [(k, round2 (fsum (map total_sales rs)))]"
proof -
  have "distinct (remdups (map key rs))" "set (remdups (map key rs)) = {k}"
    using assms by (cases rs; auto)+
  then have "remdups (map key rs) = [k]"
  proof (cases "remdups (map key rs)")
    case Nil
    then show ?thesis using \<open>set (remdups (map key rs)) = {k}\<close> by simp
  next
    case (Cons y ys)
    with \<open>set (remdups (map key rs)) = {k}\<close> have y: "y = k" "set ys \<subseteq> {k}" by auto
    moreover from Cons \<open>distinct (remdups (map key rs))\<close> have "y \<notin> set ys" by simp
    ultimately have "ys = []" by (cases ys) auto
    with y Cons show ?thesis by simp
  qed
  moreover have "filter (\<lambda>r. key r = k) rs = rs" using assms by (simp add: filter_id_conv)
  ultimately show ?thesis by (simp add: sales_by_def groupby_sum_def)
qed

lemma slow_sales_by:
  "sales_by product_category slow_growth_table = [(''Teff'', 303)]"
  "sales_by region slow_growth_table = [(''Oromia'', 303)]"
  "sales_by customer_segment slow_growth_table = [(''Retail'', 303)]"
proof -
  have r: "round2 303 = 303" using round2_cents[of 30300] by simp
  show "sales_by product_category slow_growth_table = [(''Teff'', 303)]"
    by (subst sales_by_single[where k = "''Teff''"])
       (simp_all add: slow_growth_table_def sale_def r fsum_def fadd_def fl_numeral)
  show "sales_by region slow_growth_table = [(''Oromia'', 303)]"
    by (subst sales_by_single[where k = "''Oromia''"])
       (simp_all add: slow_growth_table_def sale_def r fsum_def fadd_def fl_numeral)
  show "sales_by customer_segment slow_growth_table = [(''Retail'', 303)]"
    by (subst sales_by_single[where k = "''Retail''"])
       (simp_all add: slow_growth_table_def sale_def r fsum_def fadd_def fl_numeral)
qed

lemma slow_engine:
  "generate_all_insights \<lparr>sales_df = 1, forecast_df = None, insights = []\<rparr>
       [frame_of slow_growth_table, frame_of slow_growth_table]
   = (Inr slow_insights,
      \<lparr>sales_df = 1, forecast_df = None, insights = slow_insights\<rparr>,
      [frame_of slow_growth_table,
       \<lparr>rows = slow_growth_table, date_coerced = True, month_col = Some [1, 2, 3]\<rparr>])"
proof -
  have m: "map (\<lambda>r. month_of (date r)) slow_growth_table = [1, 2, 3]"
    by (simp add: slow_growth_table_def sale_def months)
  show ?thesis
    by (simp add: generate_all_insights_def analyze_trends_def analyze_seasonality_def
        analyze_products_def analyze_regions_def analyze_customer_segments_def
        analyze_forecast_def frame_of_def slow_trend slow_sales_by m slow_insights_def Let_def)
qed

lemma slow_init:
  "InsightEngine_init [frame_of slow_growth_table] 0 None
     = (\<lparr>sales_df = 1, forecast_df = None, insights = []\<rparr>,
        [frame_of slow_growth_table, frame_of slow_growth_table])"
  by (simp add: InsightEngine_init_def alloc_def)

lemma generate_all_insights_result:
  "generate_all_insights E s = (Inr out, E', s') \<Longrightarrow> out = insights E'"
  by (auto simp: generate_all_insights_def Let_def case_prod_beta split: sum.splits)

text \<open>
  C9 as stated fails: the monthly totals 100, 101, 102 are strictly increasing, yet the
  engine emits no Growth insight at all, because the average monthly growth (about 1
  percent) does not exceed the threshold of 5.
\<close>

theorem slow_growth_counterexample:
  "map snd (monthly_sales slow_growth_table) = [100, 101, 102]
   \<and> InsightEngine_init [frame_of slow_growth_table] 0 None
       = (\<lparr>sales_df = 1, forecast_df = None, insights = []\<rparr>,
          [frame_of slow_growth_table, frame_of slow_growth_table])
   \<and> fst (generate_all_insights \<lparr>sales_df = 1, forecast_df = None, insights = []\<rparr>
            [frame_of slow_growth_table, frame_of slow_growth_table]) = Inr slow_insights
   \<and> filter (\<lambda>i. category i = ''Growth'') slow_insights = []"
proof -
  have 1: "map snd (monthly_sales slow_growth_table) = [100, 101, 102]"
    by (simp add: slow_months)
  have 2: "fst (generate_all_insights \<lparr>sales_df = 1, forecast_df = None, insights = []\<rparr>
            [frame_of slow_growth_table, frame_of slow_growth_table]) = Inr slow_insights"
    unfolding slow_engine by simp
  have 3: "filter (\<lambda>i. category i = ''Growth'') slow_insights = []"
    by (simp add: slow_insights_def)
  from 1 slow_init 2 3 show ?thesis by blast
qed

text \<open>
  C9, amended.  For every sales table whose monthly totals are positive and strictly
  increasing, the engine emits no "Declining Sales Trend" insight; it emits a Growth
  insight of severity positive whenever the average monthly growth exceeds 5 percent
  (the threshold of the rule), not for every increasing series.  What
  \<open>generate_all_insights\<close> returns is the engine's list of insights.
\<close>

theorem increasing_series_insights:
  assumes "a < length s"
    and "sorted_wrt (<) (map snd (monthly_sales (rows (s ! a))))"
    and "\<forall>p\<in>set (monthly_sales (rows (s ! a))). 0 < snd p"
    and "InsightEngine_init s a fdf = (E, s0)"
    and "generate_all_insights E s0 = (res, E', s')"
  shows "(\<forall>i\<in>set (insights E'). title i \<noteq> ''Declining Sales Trend'')
       \<and> (np_gt (avg_growth (rows (s ! a))) (Fin 5) \<longrightarrow>
            (\<exists>i\<in>set (insights E'). category i = ''Growth'' \<and> severity i = ''positive''))
       \<and> (\<forall>out. res = Inr out \<longrightarrow> out = insights E')"
proof -
  note i = InsightEngine_init_effect[OF assms(4)]
  have b: "sales_df E < length s0" using i by simp
  have rs: "rows (s0 ! sales_df E) = rows (s ! a)" using i by simp
  from generate_all_insights_effect(2)[OF assms(5) b] obtain more where
    m: "insights E' = trend_insights (avg_growth (rows (s ! a))) (recent_growth (rows (s ! a))) @ more"
      "\<forall>i\<in>set more. title i \<noteq> ''Declining Sales Trend''"
    unfolding rs using i(2) by auto
  have nd: "\<forall>i\<in>set (trend_insights (avg_growth (rows (s ! a))) (recent_growth (rows (s ! a)))).
              title i \<noteq> ''Declining Sales Trend''"
    by (rule trend_insights_no_decline[OF avg_growth_increasing[OF assms(2,3)]])
  have 1: "\<forall>i\<in>set (insights E'). title i \<noteq> ''Declining Sales Trend''"
    using m nd by auto
  have 2: "np_gt (avg_growth (rows (s ! a))) (Fin 5) \<longrightarrow>
            (\<exists>i\<in>set (insights E'). category i = ''Growth'' \<and> severity i = ''positive'')"
    using trend_insights_growth[of "avg_growth (rows (s ! a))" "recent_growth (rows (s ! a))"] m(1)
    by auto
  have 3: "\<forall>out. res = Inr out \<longrightarrow> out = insights E'"
    using assms(5) generate_all_insights_result by blast
  from 1 2 3 show ?thesis by blast
qed

theorem increasing_series_insights_witness:
  "0 < length [frame_of fast_growth_table]
   \<and> map snd (monthly_sales (rows ([frame_of fast_growth_table] ! 0))) = [100, 120, 150]
   \<and> avg_growth (rows ([frame_of fast_growth_table] ! 0)) = Fin (45/2)
   \<and> InsightEngine_init [frame_of fast_growth_table] 0 None
       = (\<lparr>sales_df = 1, forecast_df = None, insights = []\<rparr>,
          [frame_of fast_growth_table, frame_of fast_growth_table])
   \<and> (\<exists>i\<in>set (insights (fst (snd (generate_all_insights \<lparr>sales_df = 1, forecast_df = None, insights = []\<rparr>
                   [frame_of fast_growth_table, frame_of fast_growth_table])))).
          category i = ''Growth'' \<and> severity i = ''positive'')"
proof -
  let ?s = "[frame_of fast_growth_table]"
  let ?E = "\<lparr>sales_df = 1, forecast_df = None, insights = []\<rparr>"
  let ?st = "[frame_of fast_growth_table, frame_of fast_growth_table]"
  let ?X = "generate_all_insights ?E ?st"
  have r: "rows (?s ! 0) = fast_growth_table" by (simp add: frame_of_def)
  have ms: "map snd (monthly_sales (rows (?s ! 0))) = [100, 120, 150]"
    unfolding r by (simp add: fast_months)
  have h1: "0 < length ?s" by simp
  have h2: "sorted_wrt (<) (map snd (monthly_sales (rows (?s ! 0))))"
    unfolding ms by simp
  have h3: "\<forall>p\<in>set (monthly_sales (rows (?s ! 0))). 0 < snd p"
    unfolding r by (simp add: fast_months)
  have h4: "InsightEngine_init ?s 0 None = (?E, ?st)"
    by (simp add: InsightEngine_init_def alloc_def)
  have h5: "?X = (fst ?X, fst (snd ?X), snd (snd ?X))" by simp
  have av: "avg_growth (rows (?s ! 0)) = Fin (45/2)" unfolding r by (rule fast_avg)
  then have g: "np_gt (avg_growth (rows (?s ! 0))) (Fin 5)" by simp
  from increasing_series_insights[OF h1 h2 h3 h4 h5] g
  have "\<exists>i\<in>set (insights (fst (snd ?X))). category i = ''Growth'' \<and> severity i = ''positive''"
    by blast
  with h1 ms av h4 show ?thesis by blast
qed

text \<open>
  C10.  Generating insights never changes the caller's table: the engine copies the
  frame when it is constructed, and \<open>generate_all_insights\<close> (which coerces the date
  column and adds the month column) writes to that copy only.  Whatever the outcome,
  the caller's frame is as before, and the copy, at another address, carries both
  changes.
\<close>

theorem caller_frame_unchanged:
  assumes "a < length s"
    and "InsightEngine_init s a fdf = (E, s0)"
    and "generate_all_insights E s0 = (res, E', s')"
  shows "s' ! a = s ! a
       \<and> sales_df E \<noteq> a
       \<and> s' ! sales_df E = (s ! a)\<lparr>date_coerced := True,
             month_col := Some (map (\<lambda>r. month_of (date r)) (rows (s ! a)))\<rparr>"
proof -
  note i = InsightEngine_init_effect[OF assms(2)]
  have b: "sales_df E < length s0" using i by simp
  note g = generate_all_insights_effect[OF assms(3) b]
  show ?thesis using assms(1) i g(1) by (simp add: nth_append)
qed

theorem caller_frame_unchanged_witness:
  "0 < length [frame_of slow_growth_table]
   \<and> InsightEngine_init [frame_of slow_growth_table] 0 None
       = (\<lparr>sales_df = 1, forecast_df = None, insights = []\<rparr>,
          [frame_of slow_growth_table, frame_of slow_growth_table])
   \<and> generate_all_insights \<lparr>sales_df = 1, forecast_df = None, insights = []\<rparr>
          [frame_of slow_growth_table, frame_of slow_growth_table]
       = (Inr slow_insights,
          \<lparr>sales_df = 1, forecast_df = None, insights = slow_insights\<rparr>,
          [frame_of slow_growth_table,
           \<lparr>rows = slow_growth_table, date_coerced = True, month_col = Some [1, 2, 3]\<rparr>])
   \<and> [frame_of slow_growth_table,
        \<lparr>rows = slow_growth_table, date_coerced = True, month_col = Some [1, 2, 3]\<rparr>] ! 0
       = [frame_of slow_growth_table] ! 0"
proof -
  have h1: "0 < length [frame_of slow_growth_table]" by simp
  from caller_frame_unchanged[OF h1 slow_init slow_engine] h1 slow_init slow_engine
  show ?thesis by blast
qed

end
